theory Spec2Isabelle
  imports Complex_Main "HOL-Library.Word"
begin

unbundle bit_operations_syntax

section \<open>JavaScript values\<close>

text \<open>
  A JavaScript string is a sequence of UTF-16 code units. Literals of the source are
  written as Isabelle strings and converted with \<open>lit\<close>.
\<close>

type_synonym code_unit = "16 word"
type_synonym jsstring = "code_unit list"
type_synonym byte = "8 word"
type_synonym bytes = "byte list"

definition lit :: "string \<Rightarrow> jsstring" where
  "lit s = map of_char s"

text \<open>
  A JavaScript number is an IEEE double: NaN, the two infinities, minus zero, or a finite
  value, kept here as the rational it denotes (\<open>Finite 0\<close> is plus zero).
\<close>

datatype jsnum = NaN | PosInfinity | NegInfinity | NegZero | Finite rat

text \<open>
  The values \<open>superjson.parse\<close> can hand back (\<open>unknown\<close> in the source). \<open>JObject\<close> keeps the
  own properties of a plain object in property order; \<open>JOther\<close> stands for the remaining
  object kinds (Date, Map, Set, RegExp, BigInt, ...), none of which is a number or a string.
\<close>

datatype jsval =
    JUndefined
  | JNull
  | JBoolean bool
  | JNumber jsnum
  | JString jsstring
  | JArray "jsval list"
  | JObject "(jsstring \<times> jsval) list"
  | JOther

datatype exn = TypeError | URIError | SyntaxError | ProtocolError | NavigationError

text \<open>
  \<open>parsedObj[name]\<close> for a name that is neither an array index nor a property inherited from a
  prototype (the source reads \<open>xMax\<close> and \<open>yMax\<close>): a TypeError on \<open>undefined\<close> and \<open>null\<close>, the
  own property of a plain object, \<open>undefined\<close> everywhere else.
\<close>

fun get_property :: "jsval \<Rightarrow> jsstring \<Rightarrow> exn + jsval" where
  "get_property JUndefined name = Inl TypeError"
| "get_property JNull name = Inl TypeError"
| "get_property (JObject props) name =
     (case map_of props name of None \<Rightarrow> Inr JUndefined | Some v \<Rightarrow> Inr v)"
| "get_property v name = Inr JUndefined"

section \<open>parseInt\<close>

text \<open>
  \<open>parseInt(string)\<close> with no radix, after ECMA-262: leading white space is trimmed, a sign is
  read, a \<open>0x\<close>/\<open>0X\<close> prefix selects radix 16, the longest prefix of digits is taken, and no
  digit at all gives NaN. Beyond twenty significant decimal digits the standard lets an
  implementation approximate; the model rounds the exact value.
\<close>

definition isWhiteSpace :: "code_unit \<Rightarrow> bool" where
  "isWhiteSpace c \<longleftrightarrow>
     c \<in> set [0x0009, 0x000A, 0x000B, 0x000C, 0x000D, 0x0020, 0x00A0, 0x1680,
               0x2028, 0x2029, 0x202F, 0x205F, 0x3000, 0xFEFF]
     \<or> (0x2000 \<le> c \<and> c \<le> 0x200A)"

definition digitValue :: "code_unit \<Rightarrow> nat option" where
  "digitValue c =
     (if 0x30 \<le> c \<and> c \<le> 0x39 then Some (unat c - 0x30)
      else if 0x61 \<le> c \<and> c \<le> 0x7A then Some (unat c - 0x61 + 10)
      else if 0x41 \<le> c \<and> c \<le> 0x5A then Some (unat c - 0x41 + 10)
      else None)"

definition isRadixDigit :: "nat \<Rightarrow> code_unit \<Rightarrow> bool" where
  "isRadixDigit R c = (case digitValue c of None \<Rightarrow> False | Some d \<Rightarrow> d < R)"

definition mathInt :: "nat \<Rightarrow> jsstring \<Rightarrow> nat" where
  "mathInt R Z = foldl (\<lambda>acc c. acc * R + the (digitValue c)) 0 Z"

fun bit_length :: "nat \<Rightarrow> nat" where
  "bit_length n = (if n = 0 then 0 else Suc (bit_length (n div 2)))"

declare bit_length.simps [simp del]

text \<open>
  The Number value of a natural number: exact below \<open>2^53\<close>, otherwise rounded to 53
  significant bits, ties to even. The result is the rounded integer; \<open>2^1024\<close> and above
  stands for an overflow to Infinity.
\<close>

definition roundToDouble :: "nat \<Rightarrow> nat" where
  "roundToDouble n =
     (if n < 2 ^ 53 then n
      else let e = bit_length n - 53;
               q = n div 2 ^ e;
               r = n mod 2 ^ e;
               half = 2 ^ (e - 1);
               q' = (if half < r \<or> (r = half \<and> odd q) then q + 1 else q)
           in q' * 2 ^ e)"

definition numberOfInt :: "bool \<Rightarrow> nat \<Rightarrow> jsnum" where
  "numberOfInt negative n =
     (if n = 0 then (if negative then NegZero else Finite 0)
      else let v = roundToDouble n
           in if 2 ^ 1024 \<le> v then (if negative then NegInfinity else PosInfinity)
              else Finite (if negative then - of_nat v else of_nat v))"

definition parseInt :: "jsstring \<Rightarrow> jsnum" where
  "parseInt inputString =
     (let S = dropWhile isWhiteSpace inputString;
          negative = (S \<noteq> [] \<and> hd S = 0x2D);
          S = (if S \<noteq> [] \<and> (hd S = 0x2B \<or> hd S = 0x2D) then tl S else S);
          hex = (take 2 S = lit ''0x'' \<or> take 2 S = lit ''0X'');
          S = (if hex then drop 2 S else S);
          R = (if hex then 16 else 10);
          Z = takeWhile (isRadixDigit R) S
      in if Z = [] then NaN else numberOfInt negative (mathInt R Z))"

section \<open>getNumber and the viewport\<close>

text \<open>
  \<open>number | undefined\<close> is \<open>jsnum option\<close>, \<open>None\<close> for \<open>undefined\<close>. The test
  \<open>Number.isNaN(number) || typeof number !== 'number'\<close> of the source is \<open>notANumber\<close>.
\<close>

definition notANumber :: "jsnum option \<Rightarrow> bool" where
  "notANumber number \<longleftrightarrow> number = Some NaN \<or> number = None"

definition getNumber :: "jsval \<Rightarrow> jsnum option" where
  "getNumber val =
     (let number = (case val of JNumber n \<Rightarrow> Some n | _ \<Rightarrow> None);
          number = (if notANumber number
                    then (case val of JString s \<Rightarrow> Some (parseInt s) | _ \<Rightarrow> None)
                    else number);
          number = (if notANumber number then None else number)
      in number)"

text \<open>\<open>x || d\<close> for \<open>x : number | undefined\<close>: \<open>undefined\<close>, NaN, \<open>+0\<close> and \<open>-0\<close> are falsy.\<close>

definition truthyNumber :: "jsnum option \<Rightarrow> bool" where
  "truthyNumber x \<longleftrightarrow> x \<noteq> None \<and> x \<noteq> Some NaN \<and> x \<noteq> Some (Finite 0) \<and> x \<noteq> Some NegZero"

definition orDefault :: "jsnum option \<Rightarrow> jsnum \<Rightarrow> jsnum" where
  "orDefault x d = (if truthyNumber x then the x else d)"

text \<open>
  Lines 88-89: \<open>getNumber(parsedObj['xMax']) || 360\<close> and \<open>getNumber(parsedObj['yMax']) || 1600\<close>.
\<close>

definition xMax_of :: "jsval \<Rightarrow> exn + jsnum" where
  "xMax_of parsedObj =
     (case get_property parsedObj (lit ''xMax'') of
        Inl e \<Rightarrow> Inl e
      | Inr v \<Rightarrow> Inr (orDefault (getNumber v) (Finite 360)))"

definition yMax_of :: "jsval \<Rightarrow> exn + jsnum" where
  "yMax_of parsedObj =
     (case get_property parsedObj (lit ''yMax'') of
        Inl e \<Rightarrow> Inl e
      | Inr v \<Rightarrow> Inr (orDefault (getNumber v) (Finite 1600)))"

section \<open>hashString\<close>

text \<open>
  \<open>new TextEncoder().encode(inputStr)\<close>: the code units are read as Unicode scalar values
  (a surrogate pair is one code point, a lone surrogate becomes U+FFFD) and written in UTF-8.
\<close>

definition isHighSurrogate :: "code_unit \<Rightarrow> bool" where
  "isHighSurrogate u \<longleftrightarrow> 0xD800 \<le> u \<and> u \<le> 0xDBFF"

definition isLowSurrogate :: "code_unit \<Rightarrow> bool" where
  "isLowSurrogate u \<longleftrightarrow> 0xDC00 \<le> u \<and> u \<le> 0xDFFF"

fun scalarValues :: "jsstring \<Rightarrow> nat list" where
  "scalarValues [] = []"
| "scalarValues [u] =
     [if isHighSurrogate u \<or> isLowSurrogate u then 0xFFFD else unat u]"
| "scalarValues (u # v # rest) =
     (if isHighSurrogate u \<and> isLowSurrogate v
      then (0x10000 + (unat u - 0xD800) * 0x400 + (unat v - 0xDC00)) # scalarValues rest
      else (if isHighSurrogate u \<or> isLowSurrogate u then 0xFFFD else unat u)
           # scalarValues (v # rest))"

definition utf8 :: "nat \<Rightarrow> bytes" where
  "utf8 c =
     (if c < 0x80 then [of_nat c]
      else if c < 0x800 then [of_nat (0xC0 + c div 0x40), of_nat (0x80 + c mod 0x40)]
      else if c < 0x10000 then
        [of_nat (0xE0 + c div 0x1000), of_nat (0x80 + c div 0x40 mod 0x40),
         of_nat (0x80 + c mod 0x40)]
      else
        [of_nat (0xF0 + c div 0x40000), of_nat (0x80 + c div 0x1000 mod 0x40),
         of_nat (0x80 + c div 0x40 mod 0x40), of_nat (0x80 + c mod 0x40)])"

definition TextEncoder_encode :: "jsstring \<Rightarrow> bytes" where
  "TextEncoder_encode inputStr = concat (map utf8 (scalarValues inputStr))"

text \<open>
  \<open>crypto.subtle.digest('SHA-256', data)\<close> is the SHA-256 function of FIPS 180-4 on bytes,
  written out here on 32-bit words.
\<close>

type_synonym u32 = "32 word"

definition rotr :: "nat \<Rightarrow> u32 \<Rightarrow> u32" where
  "rotr n x = drop_bit n x OR push_bit (32 - n) x"

definition Ch :: "u32 \<Rightarrow> u32 \<Rightarrow> u32 \<Rightarrow> u32" where
  "Ch x y z = (x AND y) XOR (NOT x AND z)"

definition Maj :: "u32 \<Rightarrow> u32 \<Rightarrow> u32 \<Rightarrow> u32" where
  "Maj x y z = (x AND y) XOR (x AND z) XOR (y AND z)"

definition Sigma0 :: "u32 \<Rightarrow> u32" where
  "Sigma0 x = rotr 2 x XOR rotr 13 x XOR rotr 22 x"

definition Sigma1 :: "u32 \<Rightarrow> u32" where
  "Sigma1 x = rotr 6 x XOR rotr 11 x XOR rotr 25 x"

definition sigma0 :: "u32 \<Rightarrow> u32" where
  "sigma0 x = rotr 7 x XOR rotr 18 x XOR drop_bit 3 x"

definition sigma1 :: "u32 \<Rightarrow> u32" where
  "sigma1 x = rotr 17 x XOR rotr 19 x XOR drop_bit 10 x"

definition K256 :: "u32 list" where
  "K256 =
    [0x428A2F98, 0x71374491, 0xB5C0FBCF, 0xE9B5DBA5, 0x3956C25B, 0x59F111F1, 0x923F82A4,
     0xAB1C5ED5, 0xD807AA98, 0x12835B01, 0x243185BE, 0x550C7DC3, 0x72BE5D74, 0x80DEB1FE,
     0x9BDC06A7, 0xC19BF174, 0xE49B69C1, 0xEFBE4786, 0x0FC19DC6, 0x240CA1CC, 0x2DE92C6F,
     0x4A7484AA, 0x5CB0A9DC, 0x76F988DA, 0x983E5152, 0xA831C66D, 0xB00327C8, 0xBF597FC7,
     0xC6E00BF3, 0xD5A79147, 0x06CA6351, 0x14292967, 0x27B70A85, 0x2E1B2138, 0x4D2C6DFC,
     0x53380D13, 0x650A7354, 0x766A0ABB, 0x81C2C92E, 0x92722C85, 0xA2BFE8A1, 0xA81A664B,
     0xC24B8B70, 0xC76C51A3, 0xD192E819, 0xD6990624, 0xF40E3585, 0x106AA070, 0x19A4C116,
     0x1E376C08, 0x2748774C, 0x34B0BCB5, 0x391C0CB3, 0x4ED8AA4A, 0x5B9CCA4F, 0x682E6FF3,
     0x748F82EE, 0x78A5636F, 0x84C87814, 0x8CC70208, 0x90BEFFFA, 0xA4506CEB, 0xBEF9A3F7,
     0xC67178F2]"

definition H256 :: "u32 list" where
  "H256 =
    [0x6A09E667, 0xBB67AE85, 0x3C6EF372, 0xA54FF53A, 0x510E527F, 0x9B05688C, 0x1F83D9AB,
     0x5BE0CD19]"

definition be32 :: "byte \<Rightarrow> byte \<Rightarrow> byte \<Rightarrow> byte \<Rightarrow> u32" where
  "be32 a b c d =
     push_bit 24 (ucast a) OR push_bit 16 (ucast b) OR push_bit 8 (ucast c) OR ucast d"

fun words_of :: "bytes \<Rightarrow> u32 list" where
  "words_of (a # b # c # d # rest) = be32 a b c d # words_of rest"
| "words_of _ = []"

definition bytes_of :: "u32 \<Rightarrow> bytes" where
  "bytes_of w = [ucast (drop_bit 24 w), ucast (drop_bit 16 w), ucast (drop_bit 8 w), ucast w]"

definition bitLength64 :: "nat \<Rightarrow> bytes" where
  "bitLength64 n =
     (let L = (of_nat (8 * n) :: 64 word)
      in map (\<lambda>i. ucast (drop_bit i L)) [56, 48, 40, 32, 24, 16, 8, 0])"

definition pad :: "bytes \<Rightarrow> bytes" where
  "pad m = m @ [0x80] @ replicate ((119 - length m mod 64) mod 64) 0 @ bitLength64 (length m)"

text \<open>
  The message schedule is built newest word first, so that \<open>W(t-2)\<close>, \<open>W(t-7)\<close>, \<open>W(t-15)\<close>
  and \<open>W(t-16)\<close> are at positions 1, 6, 14 and 15.
\<close>

fun expand :: "nat \<Rightarrow> u32 list \<Rightarrow> u32 list" where
  "expand 0 ws = ws"
| "expand (Suc n) ws =
     expand n ((sigma1 (ws ! 1) + ws ! 6 + sigma0 (ws ! 14) + ws ! 15) # ws)"

definition schedule :: "u32 list \<Rightarrow> u32 list" where
  "schedule M = rev (expand 48 (rev M))"

fun round256 :: "u32 list \<Rightarrow> u32 \<times> u32 \<Rightarrow> u32 list" where
  "round256 [a, b, c, d, e, f, g, h] (k, w) =
     (let T1 = h + Sigma1 e + Ch e f g + k + w;
          T2 = Sigma0 a + Maj a b c
      in [T1 + T2, a, b, c, d + T1, e, f, g])"
| "round256 H _ = H"

definition compress :: "u32 list \<Rightarrow> u32 list \<Rightarrow> u32 list" where
  "compress H M = map2 (+) H (foldl round256 H (zip K256 (schedule M)))"

function blocks :: "u32 list \<Rightarrow> bytes \<Rightarrow> u32 list" where
  "blocks H bs =
     (if length bs < 64 then H
      else blocks (compress H (words_of (take 64 bs))) (drop 64 bs))"
  by pat_completeness auto
termination
  by (relation "measure (\<lambda>(H, bs). length bs)") auto

declare blocks.simps [simp del]

definition sha256 :: "bytes \<Rightarrow> bytes" where
  "sha256 m = concat (map bytes_of (blocks H256 (pad m)))"

text \<open>
  Line 144: \<open>byte.toString(16).padStart(2, '0')\<close> for each byte, joined with the empty string.
\<close>

definition hexDigit :: "nat \<Rightarrow> code_unit" where
  "hexDigit d = (if d < 10 then of_nat (0x30 + d) else of_nat (0x61 + (d - 10)))"

definition toString16 :: "byte \<Rightarrow> jsstring" where
  "toString16 b =
     (if unat b < 16 then [hexDigit (unat b)]
      else [hexDigit (unat b div 16), hexDigit (unat b mod 16)])"

definition padStart :: "nat \<Rightarrow> code_unit \<Rightarrow> jsstring \<Rightarrow> jsstring" where
  "padStart n c s = replicate (n - length s) c @ s"

definition hashString :: "jsstring \<Rightarrow> jsstring" where
  "hashString inputStr =
     (let data = TextEncoder_encode inputStr;
          hashArray = sha256 data
      in concat (map (\<lambda>b. padStart 2 0x30 (toString16 b)) hashArray))"

section \<open>The platform\<close>

text \<open>
  What the handlers take from the runtime and from npm packages, none of it code of this
  repository. A \<open>URL\<close> object is the three members the source reads. The library functions
  are the fields of \<open>platform\<close>: \<open>None\<close> stands for the exception the call throws.
\<close>

record url =
  href :: jsstring
  search :: jsstring
  searchParams :: "(jsstring \<times> jsstring) list"

record platform =
  URL_new :: "jsstring \<Rightarrow> url option"
  searchParams_set :: "url \<Rightarrow> jsstring \<Rightarrow> jsstring \<Rightarrow> url"
  decodeURIComponent :: "jsstring \<Rightarrow> jsstring option"
  superjson_parse :: "jsstring \<Rightarrow> jsval option"
  superjson_stringify :: "jsval \<Rightarrow> jsstring"

definition searchParams_get :: "url \<Rightarrow> jsstring \<Rightarrow> jsstring option" where
  "searchParams_get u name = map_of (searchParams u) name"

text \<open>
  A puppeteer browser handle: the session it is connected to and what \<open>isConnected()\<close>
  answers. \<open>close()\<close> disconnects it.
\<close>

record puppeteer_browser =
  session :: nat
  isConnected :: bool

text \<open>
  What the world answers during one call of a handler: the reading of \<open>Date.now()\<close>, the
  outcome of \<open>puppeteer.launch\<close> (\<open>Inl\<close> the error it rejects with), and the page
  operations. \<open>newPage()\<close> rejects on a handle that is not connected; \<open>put\<close>, \<open>page.close\<close>,
  \<open>browser.close\<close> and the alarm storage are taken to succeed.
\<close>

record world =
  Date_now :: nat
  launch :: "jsstring + puppeteer_browser"
  setViewport_rejects :: "jsnum \<Rightarrow> jsnum \<Rightarrow> bool"
  goto_rejects :: "jsstring \<Rightarrow> bool"
  screenshot :: "jsstring \<Rightarrow> jsnum \<Rightarrow> jsnum \<Rightarrow> bytes option"

datatype exception = Exn exn | LaunchError jsstring

datatype body = Empty | Text jsstring | Binary bytes

record response =
  status :: nat
  headers :: "(jsstring \<times> jsstring) list"
  body :: body

text \<open>\<open>new Response()\<close>, \<open>new Response(text)\<close> and the image response of lines 111-115.\<close>

definition Response_empty :: response where
  "Response_empty = \<lparr>status = 200, headers = [], body = Empty\<rparr>"

definition Response_text :: "string \<Rightarrow> response" where
  "Response_text t =
     \<lparr>status = 200,
      headers = [(lit ''content-type'', lit ''text/plain;charset=UTF-8'')],
      body = Text (lit t)\<rparr>"

definition Response_image :: "bytes option \<Rightarrow> response" where
  "Response_image img =
     \<lparr>status = 200,
      headers = [(lit ''content-type'', lit ''image/jpeg'')],
      body = (case img of None \<Rightarrow> Empty | Some b \<Rightarrow> Binary b)\<rparr>"

section \<open>State and trace\<close>

datatype log_line =
    Starting_new_instance
  | Could_not_start jsstring
  | Setting_alarm
  | Kept_alive int
  | Exceeded_life int
  | Closing_browser

text \<open>
  Every call that leaves the handler, in the order the handler makes it, and every
  assignment to \<open>keptAliveInSeconds\<close>.
\<close>

datatype event =
    ConsoleLog log_line
  | Launch
  | KvGet jsstring
  | KvPut jsstring bytes nat
  | NewPage
  | SetViewport jsnum jsnum
  | Goto jsstring
  | Screenshot
  | PageClose
  | BrowserClose
  | GetAlarm
  | SetAlarm nat
  | WriteKeptAlive int

text \<open>
  \<open>stores\<close> is what both handlers share: the KV namespace \<open>ICON_BG_BROWSER\<close> (a value and the
  \<open>expirationTtl\<close> it was put with; an entry whose time has run out is gone from the map)
  and the trace. \<open>browser_do\<close> adds the fields of the class \<open>Browser\<close> and the alarm of its
  storage. \<open>keptAliveInSeconds\<close> only ever holds sums of tens, so it is an integer.
\<close>

record stores =
  kv :: "jsstring \<rightharpoonup> bytes \<times> nat"
  trace :: "event list"

record browser_do = stores +
  keptAliveInSeconds :: int
  browser :: "puppeteer_browser option"
  alarm :: "nat option"

definition emit :: "event \<Rightarrow> 'a stores_scheme \<Rightarrow> 'a stores_scheme" where
  "emit e s = s\<lparr>trace := trace s @ [e]\<rparr>"

definition console_log :: "log_line \<Rightarrow> 'a stores_scheme \<Rightarrow> 'a stores_scheme" where
  "console_log l s = emit (ConsoleLog l) s"

definition constructor :: "(jsstring \<rightharpoonup> bytes \<times> nat) \<Rightarrow> browser_do" where
  "constructor store =
     \<lparr>kv = store, trace = [], keptAliveInSeconds = 0, browser = None, alarm = None\<rparr>"

section \<open>parseSearchParams\<close>

fun includes_js :: "'a list \<Rightarrow> 'a list \<Rightarrow> bool" where
  "includes_js [] pat = (pat = [])"
| "includes_js (c # cs) pat = (take (length pat) (c # cs) = pat \<or> includes_js cs pat)"

text \<open>\<open>s.split(sep)\<close> for a separator of one code unit: never an empty array.\<close>

fun split_js :: "'a \<Rightarrow> 'a list \<Rightarrow> 'a list list" where
  "split_js sep [] = [[]]"
| "split_js sep (c # cs) =
     (if c = sep then [] # split_js sep cs
      else (case split_js sep cs of [] \<Rightarrow> [[c]] | w # ws \<Rightarrow> (c # w) # ws))"

datatype param = PString jsstring | PArray "jsstring list"

type_synonym ParsedParams = "jsstring \<rightharpoonup> param"

text \<open>
  \<open>if (params[key])\<close>: a missing key and the empty string are falsy, an array is truthy.
  Properties that \<open>{}\<close> inherits from \<open>Object.prototype\<close> are left out: they change the
  outcome only for keys named like them, and \<open>options\<close> is not one.
\<close>

definition truthyParam :: "param option \<Rightarrow> bool" where
  "truthyParam p =
     (case p of None \<Rightarrow> False | Some (PString s) \<Rightarrow> s \<noteq> [] | Some (PArray a) \<Rightarrow> True)"

definition addParam :: "ParsedParams \<Rightarrow> jsstring \<Rightarrow> jsstring \<Rightarrow> ParsedParams" where
  "addParam params key val =
     (if key \<noteq> [] then
        (if truthyParam (params key) then
           (case params key of
              Some (PArray a) \<Rightarrow> params(key \<mapsto> PArray (a @ [val]))
            | Some (PString s) \<Rightarrow> params(key \<mapsto> PArray [s, val])
            | None \<Rightarrow> params)
         else params(key \<mapsto> PString val))
      else params)"

fun parseLoop :: "platform \<Rightarrow> ParsedParams \<Rightarrow> jsstring list \<Rightarrow> exn + ParsedParams" where
  "parseLoop P params [] = Inr params"
| "parseLoop P params (sp # rest) =
     (let pair = split_js 0x3D sp
      in case decodeURIComponent P (hd pair) of
           None \<Rightarrow> Inl URIError
         | Some key \<Rightarrow>
             (case decodeURIComponent P (if 1 < length pair then pair ! 1 else []) of
                None \<Rightarrow> Inl URIError
              | Some val \<Rightarrow> parseLoop P (addParam params key val) rest))"

definition parseSearchParams :: "platform \<Rightarrow> jsstring \<Rightarrow> exn + ParsedParams" where
  "parseSearchParams P queryString = parseLoop P Map.empty (split_js 0x26 (drop 1 queryString))"

section \<open>The handlers\<close>

text \<open>
  Lines 54-71 of \<open>Browser.fetch\<close> and lines 212-229 of the per-request handler are the same
  statements and touch no state: the request is answered at once (\<open>Done\<close>) or yields the
  parsed options, their canonical string, its hash and the target address to render
  (\<open>Continue\<close>).
\<close>

record render_job =
  parsedObj :: jsval
  optionsStr :: jsstring
  optionsHashed :: jsstring
  target :: jsstring

datatype prelude_result = Done "exception + response" | Continue render_job

definition missing_url :: response where
  "missing_url = Response_text ''Please add an ?url=https://example.com/ parameter''"

definition missing_options :: response where
  "missing_options = Response_text ''Please add options to your url''"

text \<open>Lines 68-71: parse the options, serialize them again, hash the serialization.\<close>

definition normalize_options :: "platform \<Rightarrow> jsstring \<Rightarrow> (jsval \<times> jsstring \<times> jsstring) option" where
  "normalize_options P parsedOptions =
     (case superjson_parse P parsedOptions of
        None \<Rightarrow> None
      | Some obj \<Rightarrow>
          (let str = superjson_stringify P obj
           in Some (obj, str, hashString str)))"

definition with_target :: "platform \<Rightarrow> jsstring \<Rightarrow> prelude_result" where
  "with_target P urlStr =
     (case URL_new P urlStr of
        None \<Rightarrow> Done (Inl (Exn TypeError))
      | Some u \<Rightarrow>
          (case parseSearchParams P (search u) of
             Inl e \<Rightarrow> Done (Inl (Exn e))
           | Inr parsed \<Rightarrow>
               (case parsed (lit ''options'') of
                  Some (PString parsedOptions) \<Rightarrow>
                    (if parsedOptions = [] then Done (Inr missing_options)
                     else (case normalize_options P parsedOptions of
                             None \<Rightarrow> Done (Inl (Exn SyntaxError))
                           | Some (obj, str, hashed) \<Rightarrow>
                               Continue
                                 \<lparr>parsedObj = obj, optionsStr = str, optionsHashed = hashed,
                                  target = href (searchParams_set P u (lit ''options'') str)\<rparr>))
                | _ \<Rightarrow> Done (Inr missing_options))))"

definition prelude :: "platform \<Rightarrow> jsstring \<Rightarrow> prelude_result" where
  "prelude P request_url =
     (if includes_js request_url (lit ''/favicon.ico'') then Done (Inr Response_empty)
      else (case URL_new P request_url of
              None \<Rightarrow> Done (Inl (Exn TypeError))
            | Some u \<Rightarrow>
                (case searchParams_get u (lit ''url'') of
                   None \<Rightarrow> Done (Inr missing_url)
                 | Some urlStr \<Rightarrow>
                     (if urlStr = [] then Done (Inr missing_url)
                      else with_target P urlStr))))"

definition KV_get :: "jsstring \<Rightarrow> 'a stores_scheme \<Rightarrow> bytes option \<times> 'a stores_scheme" where
  "KV_get key s = (map_option fst (kv s key), emit (KvGet key) s)"

definition KV_put :: "jsstring \<Rightarrow> bytes \<Rightarrow> nat \<Rightarrow> 'a stores_scheme \<Rightarrow> 'a stores_scheme" where
  "KV_put key v ttl s = emit (KvPut key v ttl) (s\<lparr>kv := (kv s)(key \<mapsto> (v, ttl))\<rparr>)"

text \<open>
  Lines 87-92 and 234-239, the same in both handlers: a new page of browser \<open>b\<close>, the
  viewport, the navigation and the screenshot.
\<close>

definition page_work ::
  "world \<Rightarrow> puppeteer_browser \<Rightarrow> render_job \<Rightarrow> 'a stores_scheme
     \<Rightarrow> (exception + bytes) \<times> 'a stores_scheme" where
  "page_work W b job s =
     (let s = emit NewPage s
      in if \<not> isConnected b then (Inl (Exn ProtocolError), s)
         else (case xMax_of (parsedObj job) of
                 Inl e \<Rightarrow> (Inl (Exn e), s)
               | Inr xMax \<Rightarrow>
                   (case yMax_of (parsedObj job) of
                      Inl e \<Rightarrow> (Inl (Exn e), s)
                    | Inr yMax \<Rightarrow>
                        (let s = emit (SetViewport xMax yMax) s
                         in if setViewport_rejects W xMax yMax
                            then (Inl (Exn ProtocolError), s)
                            else (let s = emit (Goto (target job)) s
                                  in if goto_rejects W (target job)
                                     then (Inl (Exn NavigationError), s)
                                     else (let s = emit Screenshot s
                                           in case screenshot W (target job) xMax yMax of
                                                None \<Rightarrow> (Inl (Exn ProtocolError), s)
                                              | Some img \<Rightarrow> (Inr img, s)))))))"

subsection \<open>The Durable Object\<close>

definition KEEP_BROWSER_ALIVE_IN_SECONDS :: int where
  "KEEP_BROWSER_ALIVE_IN_SECONDS = 60"

text \<open>Lines 73-80.\<close>

definition launch_if_needed :: "world \<Rightarrow> browser_do \<Rightarrow> browser_do" where
  "launch_if_needed W s =
     (if (case browser s of None \<Rightarrow> True | Some b \<Rightarrow> \<not> isConnected b) then
        (let s = emit Launch (console_log Starting_new_instance s)
         in case launch W of
              Inr b \<Rightarrow> s\<lparr>browser := Some b\<rparr>
            | Inl e \<Rightarrow> console_log (Could_not_start e) s)
      else s)"

text \<open>Lines 85-98, entered when \<open>img === null && this.browser\<close>.\<close>

definition render ::
  "world \<Rightarrow> puppeteer_browser \<Rightarrow> render_job \<Rightarrow> browser_do
     \<Rightarrow> (exception + bytes option) \<times> browser_do" where
  "render W b job s =
     (let s = emit (WriteKeptAlive 0) (s\<lparr>keptAliveInSeconds := 0\<rparr>)
      in case page_work W b job s of
           (Inl e, s) \<Rightarrow> (Inl e, s)
         | (Inr img, s) \<Rightarrow>
             (let s = KV_put (optionsHashed job) img (60 * 60 * 24) s;
                  s = emit PageClose s;
                  s = emit (WriteKeptAlive 0) (s\<lparr>keptAliveInSeconds := 0\<rparr>)
              in (Inr (Some img), s)))"

text \<open>Lines 103-109.\<close>

definition arm_alarm :: "world \<Rightarrow> browser_do \<Rightarrow> browser_do" where
  "arm_alarm W s =
     (let s = emit GetAlarm s
      in if alarm s = None then
           (let s = console_log Setting_alarm s;
                TEN_SECONDS = 10 * 1000
            in emit (SetAlarm (Date_now W + TEN_SECONDS))
                 (s\<lparr>alarm := Some (Date_now W + TEN_SECONDS)\<rparr>))
         else s)"

definition Browser_fetch ::
  "platform \<Rightarrow> world \<Rightarrow> jsstring \<Rightarrow> browser_do \<Rightarrow> (exception + response) \<times> browser_do" where
  "Browser_fetch P W request_url s =
     (case prelude P request_url of
        Done r \<Rightarrow> (r, s)
      | Continue job \<Rightarrow>
          (let s = launch_if_needed W s;
               (img, s) = KV_get (optionsHashed job) s
           in case (if img = None \<and> browser s \<noteq> None
                    then render W (the (browser s)) job s
                    else (Inr img, s)) of
                (Inl e, s) \<Rightarrow> (Inl e, s)
              | (Inr img, s) \<Rightarrow>
                  (let s = arm_alarm W s
                   in (Inr (Response_image img), s))))"

text \<open>Lines 120-137.\<close>

definition Browser_alarm :: "world \<Rightarrow> browser_do \<Rightarrow> browser_do" where
  "Browser_alarm W s =
     (let s = emit (WriteKeptAlive (keptAliveInSeconds s + 10))
                (s\<lparr>keptAliveInSeconds := keptAliveInSeconds s + 10\<rparr>)
      in if keptAliveInSeconds s < KEEP_BROWSER_ALIVE_IN_SECONDS then
           (let s = console_log (Kept_alive (keptAliveInSeconds s)) s
            in emit (SetAlarm (Date_now W + 10 * 1000))
                 (s\<lparr>alarm := Some (Date_now W + 10 * 1000)\<rparr>))
         else
           (let s = console_log (Exceeded_life KEEP_BROWSER_ALIVE_IN_SECONDS) s
            in case browser s of
                 None \<Rightarrow> s
               | Some b \<Rightarrow>
                   emit BrowserClose
                     ((console_log Closing_browser s)\<lparr>browser := Some (b\<lparr>isConnected := False\<rparr>)\<rparr>)))"

subsection \<open>Alarms delivered while a request waits\<close>

text \<open>
  \<open>Browser.fetch\<close> gives up control at each \<open>await\<close>. The platform may run \<open>alarm()\<close> of the
  same object while the request waits for the digest, the launch, the cache or the page;
  it delivers nothing while the request waits for its own storage (\<open>getAlarm\<close>,
  \<open>setAlarm\<close>). An interleaving says how many times the platform tries to deliver the alarm
  at each of these points. A delivery runs \<open>alarm()\<close> when an alarm is scheduled, and the
  scheduled alarm is consumed by it; with no alarm scheduled nothing happens. The functions
  below are the statements of \<open>Browser.fetch\<close> again, line by line, with the deliveries at
  the awaits. A call on the page of a browser that \<open>alarm()\<close> has closed in the meantime is
  rejected.
\<close>

datatype await_point =
  AwaitDigest | AwaitLaunch | AwaitGet | AwaitNewPage | AwaitSetViewport | AwaitGoto
  | AwaitScreenshot | AwaitPut | AwaitPageClose

type_synonym interleaving = "await_point \<Rightarrow> nat"

definition deliver_alarm :: "world \<Rightarrow> browser_do \<Rightarrow> browser_do" where
  "deliver_alarm W s =
     (case alarm s of
        None \<Rightarrow> s
      | Some t \<Rightarrow> Browser_alarm W (s\<lparr>alarm := None\<rparr>))"

fun deliveries :: "world \<Rightarrow> nat \<Rightarrow> browser_do \<Rightarrow> browser_do" where
  "deliveries W 0 s = s"
| "deliveries W (Suc n) s = deliveries W n (deliver_alarm W s)"

definition awaiting :: "world \<Rightarrow> interleaving \<Rightarrow> await_point \<Rightarrow> browser_do \<Rightarrow> browser_do" where
  "awaiting W I p s = deliveries W (I p) s"

definition connected :: "browser_do \<Rightarrow> bool" where
  "connected s = (case browser s of None \<Rightarrow> False | Some b \<Rightarrow> isConnected b)"

text \<open>Lines 73-80.\<close>

definition launch_if_needed_interleaved :: "world \<Rightarrow> interleaving \<Rightarrow> browser_do \<Rightarrow> browser_do" where
  "launch_if_needed_interleaved W I s =
     (if (case browser s of None \<Rightarrow> True | Some b \<Rightarrow> \<not> isConnected b) then
        (let s = awaiting W I AwaitLaunch (emit Launch (console_log Starting_new_instance s))
         in case launch W of
              Inr b \<Rightarrow> s\<lparr>browser := Some b\<rparr>
            | Inl e \<Rightarrow> console_log (Could_not_start e) s)
      else s)"

text \<open>Lines 87-92, on the page of \<open>this.browser\<close>.\<close>

definition page_work_interleaved ::
  "world \<Rightarrow> interleaving \<Rightarrow> render_job \<Rightarrow> browser_do \<Rightarrow> (exception + bytes) \<times> browser_do" where
  "page_work_interleaved W I job s =
     (let s = awaiting W I AwaitNewPage (emit NewPage s)
      in if \<not> connected s then (Inl (Exn ProtocolError), s)
         else (case xMax_of (parsedObj job) of
                 Inl e \<Rightarrow> (Inl (Exn e), s)
               | Inr xMax \<Rightarrow>
                   (case yMax_of (parsedObj job) of
                      Inl e \<Rightarrow> (Inl (Exn e), s)
                    | Inr yMax \<Rightarrow>
                        (let s = awaiting W I AwaitSetViewport (emit (SetViewport xMax yMax) s)
                         in if \<not> connected s \<or> setViewport_rejects W xMax yMax
                            then (Inl (Exn ProtocolError), s)
                            else (let s = awaiting W I AwaitGoto (emit (Goto (target job)) s)
                                  in if \<not> connected s then (Inl (Exn ProtocolError), s)
                                     else if goto_rejects W (target job)
                                     then (Inl (Exn NavigationError), s)
                                     else (let s = awaiting W I AwaitScreenshot (emit Screenshot s)
                                           in if \<not> connected s then (Inl (Exn ProtocolError), s)
                                              else (case screenshot W (target job) xMax yMax of
                                                      None \<Rightarrow> (Inl (Exn ProtocolError), s)
                                                    | Some img \<Rightarrow> (Inr img, s))))))))"

text \<open>
  Lines 85-98. The event \<open>PageClose\<close> stands for the page being closed, that is for
  \<open>page.close()\<close> having returned.
\<close>

definition render_interleaved ::
  "world \<Rightarrow> interleaving \<Rightarrow> render_job \<Rightarrow> browser_do
     \<Rightarrow> (exception + bytes option) \<times> browser_do" where
  "render_interleaved W I job s =
     (let s = emit (WriteKeptAlive 0) (s\<lparr>keptAliveInSeconds := 0\<rparr>)
      in case page_work_interleaved W I job s of
           (Inl e, s) \<Rightarrow> (Inl e, s)
         | (Inr img, s) \<Rightarrow>
             (let s = awaiting W I AwaitPut (KV_put (optionsHashed job) img (60 * 60 * 24) s);
                  s = awaiting W I AwaitPageClose s
              in if \<not> connected s then (Inl (Exn ProtocolError), s)
                 else (let s = emit PageClose s;
                           s = emit (WriteKeptAlive 0) (s\<lparr>keptAliveInSeconds := 0\<rparr>)
                       in (Inr (Some img), s))))"

text \<open>Lines 53-119.\<close>

definition Browser_fetch_interleaved ::
  "platform \<Rightarrow> world \<Rightarrow> interleaving \<Rightarrow> jsstring \<Rightarrow> browser_do
     \<Rightarrow> (exception + response) \<times> browser_do" where
  "Browser_fetch_interleaved P W I request_url s =
     (case prelude P request_url of
        Done r \<Rightarrow> (r, s)
      | Continue job \<Rightarrow>
          (let s = awaiting W I AwaitDigest s;
               s = launch_if_needed_interleaved W I s;
               (img, s) = KV_get (optionsHashed job) s;
               s = awaiting W I AwaitGet s
           in case (if img = None \<and> browser s \<noteq> None
                    then render_interleaved W I job s
                    else (Inr img, s)) of
                (Inl e, s) \<Rightarrow> (Inl e, s)
              | (Inr img, s) \<Rightarrow>
                  (let s = arm_alarm W s
                   in (Inr (Response_image img), s))))"

subsection \<open>The per-request handler\<close>



section \<open>Computing a digest\<close>

text \<open>
  A word written as the least numeral that denotes it. The function is the identity; it
  keeps the numerals short while the digest of a given message is computed.
\<close>

definition canon :: "u32 \<Rightarrow> u32" where
  "canon x = word_of_nat (unat x)"

section \<open>Segments of the trace\<close>

text \<open>What a call added to the trace, and the kinds of event the properties speak of.\<close>

definition new_events :: "'a stores_scheme \<Rightarrow> 'b stores_scheme \<Rightarrow> event list" where
  "new_events s s' = drop (length (trace s)) (trace s')"

fun page_event :: "event \<Rightarrow> bool" where
  "page_event NewPage = True"
| "page_event (SetViewport w h) = True"
| "page_event (Goto t) = True"
| "page_event Screenshot = True"
| "page_event PageClose = True"
| "page_event e = False"

fun counter_write :: "event \<Rightarrow> bool" where
  "counter_write (WriteKeptAlive n) = True"
| "counter_write e = False"

fun alarm_write :: "event \<Rightarrow> bool" where
  "alarm_write (SetAlarm t) = True"
| "alarm_write e = False"

text \<open>
  The events that decide what is rendered, cached and answered: the reads and writes of the
  cache and the work on the page. The rest of the trace is the management of the browser.
\<close>

fun render_event :: "event \<Rightarrow> bool" where
  "render_event (KvGet k) = True"
| "render_event (KvPut k v ttl) = True"
| "render_event NewPage = True"
| "render_event (SetViewport w h) = True"
| "render_event (Goto t) = True"
| "render_event Screenshot = True"
| "render_event e = False"


definition launch_events :: "world \<Rightarrow> browser_do \<Rightarrow> event list" where
  "launch_events W s =
     (if (case browser s of None \<Rightarrow> True | Some b \<Rightarrow> \<not> isConnected b) then
        [ConsoleLog Starting_new_instance, Launch]
        @ (case launch W of Inr b \<Rightarrow> [] | Inl e \<Rightarrow> [ConsoleLog (Could_not_start e)])
      else [])"

definition alarm_events :: "world \<Rightarrow> browser_do \<Rightarrow> event list" where
  "alarm_events W s =
     (if alarm s = None
      then [GetAlarm, ConsoleLog Setting_alarm, SetAlarm (Date_now W + 10000)]
      else [GetAlarm])"

section \<open>The values written to the counter\<close>

text \<open>
  The values that a segment of the trace writes to \<open>keptAliveInSeconds\<close>, in order, and the
  segments in which the counter only climbs from \<open>k\<close> in steps of ten: every write in them
  is a tick of the alarm that found the counter as the write before it left it.
\<close>

fun written :: "event list \<Rightarrow> int list" where
  "written [] = []"
| "written (WriteKeptAlive n # es) = n # written es"
| "written (e # es) = written es"

fun climbs :: "int \<Rightarrow> int list \<Rightarrow> bool" where
  "climbs k [] = True"
| "climbs k (n # ns) = (n = k + 10 \<and> climbs n ns)"

text \<open>What one run of \<open>alarm()\<close> adds to the trace in state \<open>s\<close>.\<close>

definition tick_events :: "world \<Rightarrow> browser_do \<Rightarrow> event list" where
  "tick_events W s =
     WriteKeptAlive (keptAliveInSeconds s + 10) #
     (if keptAliveInSeconds s + 10 < 60
      then [ConsoleLog (Kept_alive (keptAliveInSeconds s + 10)), SetAlarm (Date_now W + 10000)]
      else ConsoleLog (Exceeded_life 60) #
           (case browser s of None \<Rightarrow> [] | Some b \<Rightarrow> [ConsoleLog Closing_browser, BrowserClose]))"

text \<open>
  From \<open>s\<close> to \<open>s'\<close> the trace has grown, no page has been opened or closed, and the counter
  has moved by ticks of the alarm only: it is what the last write left.
\<close>

definition only_ticks :: "browser_do \<Rightarrow> browser_do \<Rightarrow> bool" where
  "only_ticks s s' \<longleftrightarrow>
     trace s' = trace s @ new_events s s' \<and>
     NewPage \<notin> set (new_events s s') \<and> PageClose \<notin> set (new_events s s') \<and>
     climbs (keptAliveInSeconds s) (written (new_events s s')) \<and>
     keptAliveInSeconds s' = last (keptAliveInSeconds s # written (new_events s s'))"

section \<open>The keys under which the cache is read and written\<close>

fun cache_keys :: "event list \<Rightarrow> jsstring list" where
  "cache_keys [] = []"
| "cache_keys (KvGet k # es) = k # cache_keys es"
| "cache_keys (KvPut k v ttl # es) = k # cache_keys es"
| "cache_keys (e # es) = cache_keys es"


section \<open>The pieces of a query string\<close>





section \<open>Recorded answers of the platform\<close>

text \<open>
  The strings of the examples, and a platform that answers on them what the runtime and
  superjson answer: the rows can be checked in a JavaScript console. Outside the rows it
  throws, hands back the URL it was given, or writes the empty string; the examples never
  leave the rows.
\<close>

definition payload_xy :: jsstring where
  \<open>payload_xy = lit ''{"json":{"xMax":1,"yMax":2}}''\<close>

definition payload_yx :: jsstring where
  \<open>payload_yx = lit ''{"json":{"yMax":2,"xMax":1}}''\<close>

definition payload_xy_spaced :: jsstring where
  \<open>payload_xy_spaced = lit ''{ "json": { "xMax": 1, "yMax": 2 } }''\<close>

definition payload_480 :: jsstring where
  \<open>payload_480 = lit ''{"json":{"xMax":"480"}}''\<close>

definition fields_xy :: "(jsstring \<times> jsval) list" where
  "fields_xy = [(lit ''xMax'', JNumber (Finite 1)), (lit ''yMax'', JNumber (Finite 2))]"

definition fields_yx :: "(jsstring \<times> jsval) list" where
  "fields_yx = [(lit ''yMax'', JNumber (Finite 2)), (lit ''xMax'', JNumber (Finite 1))]"

definition fields_480 :: "(jsstring \<times> jsval) list" where
  "fields_480 = [(lit ''xMax'', JString (lit ''480''))]"

definition request_render :: jsstring where
  "request_render =
     lit ''https://w.dev/?url=https://e.com/?options=%7B%22json%22:%7B%22xMax%22:%22480%22%7D%7D''"

definition target_render :: jsstring where
  \<open>target_render = lit ''https://e.com/?options={"json":{"xMax":"480"}}''\<close>

definition request_xy :: jsstring where
  "request_xy =
     lit ''https://w.dev/?url=https://e.com/?options=%7B%22json%22:%7B%22xMax%22:1,%22yMax%22:2%7D%7D''"

definition target_xy :: jsstring where
  \<open>target_xy = lit ''https://e.com/?options={"json":{"xMax":1,"yMax":2}}''\<close>

definition request_xy_spaced :: jsstring where
  "request_xy_spaced =
     lit ''https://w.dev/?url=https://e.com/?options=%7B%20%22json%22:%20%7B%20%22xMax%22:%201,%20%22yMax%22:%202%20%7D%20%7D''"

definition target_xy_spaced :: jsstring where
  \<open>target_xy_spaced = lit ''https://e.com/?options={ "json": { "xMax": 1, "yMax": 2 } }''\<close>

definition request_no_options :: jsstring where
  "request_no_options = lit ''https://w.dev/?url=https://e.com/''"

definition request_no_url :: jsstring where
  "request_no_url = lit ''https://w.dev/''"

definition request_favicon :: jsstring where
  "request_favicon = lit ''https://w.dev/favicon.ico''"

definition request_bad_escape :: jsstring where
  "request_bad_escape = lit ''https://w.dev/?url=https://e.com/?options=%25''"

definition request_bad_target :: jsstring where
  "request_bad_target = lit ''https://w.dev/?url=nonsense''"

definition recorded_URLs :: "(jsstring \<times> url) list" where
  "recorded_URLs =
    [(request_render,
      \<lparr>href = request_render,
       search = lit ''?url=https://e.com/?options=%7B%22json%22:%7B%22xMax%22:%22480%22%7D%7D'',
       searchParams = [(lit ''url'', target_render)]\<rparr>),
     (target_render,
      \<lparr>href = lit ''https://e.com/?options={%22json%22:{%22xMax%22:%22480%22}}'',
       search = lit ''?options={%22json%22:{%22xMax%22:%22480%22}}'',
       searchParams = [(lit ''options'', payload_480)]\<rparr>),
     (request_xy,
      \<lparr>href = request_xy,
       search = lit ''?url=https://e.com/?options=%7B%22json%22:%7B%22xMax%22:1,%22yMax%22:2%7D%7D'',
       searchParams = [(lit ''url'', target_xy)]\<rparr>),
     (target_xy,
      \<lparr>href = lit ''https://e.com/?options={%22json%22:{%22xMax%22:1,%22yMax%22:2}}'',
       search = lit ''?options={%22json%22:{%22xMax%22:1,%22yMax%22:2}}'',
       searchParams = [(lit ''options'', payload_xy)]\<rparr>),
     (request_xy_spaced,
      \<lparr>href = request_xy_spaced,
       search = lit ''?url=https://e.com/?options=%7B%20%22json%22:%20%7B%20%22xMax%22:%201,%20%22yMax%22:%202%20%7D%20%7D'',
       searchParams = [(lit ''url'', target_xy_spaced)]\<rparr>),
     (target_xy_spaced,
      \<lparr>href = lit ''https://e.com/?options={%20%22json%22:%20{%20%22xMax%22:%201,%20%22yMax%22:%202%20}%20}'',
       search = lit ''?options={%20%22json%22:%20{%20%22xMax%22:%201,%20%22yMax%22:%202%20}%20}'',
       searchParams = [(lit ''options'', payload_xy_spaced)]\<rparr>),
     (request_no_options,
      \<lparr>href = request_no_options,
       search = lit ''?url=https://e.com/'',
       searchParams = [(lit ''url'', lit ''https://e.com/'')]\<rparr>),
     (lit ''https://e.com/'',
      \<lparr>href = lit ''https://e.com/'', search = [], searchParams = []\<rparr>),
     (request_no_url,
      \<lparr>href = request_no_url, search = [], searchParams = []\<rparr>),
     (request_favicon,
      \<lparr>href = request_favicon, search = [], searchParams = []\<rparr>),
     (request_bad_target,
      \<lparr>href = request_bad_target,
       search = lit ''?url=nonsense'',
       searchParams = [(lit ''url'', lit ''nonsense'')]\<rparr>),
     (request_bad_escape,
      \<lparr>href = request_bad_escape,
       search = lit ''?url=https://e.com/?options=%25'',
       searchParams = [(lit ''url'', lit ''https://e.com/?options=%'')]\<rparr>),
     (lit ''https://e.com/?options=%'',
      \<lparr>href = lit ''https://e.com/?options=%'',
       search = lit ''?options=%'',
       searchParams = [(lit ''options'', lit ''%'')]\<rparr>)]"

definition href_xy :: jsstring where
  "href_xy = lit ''https://e.com/?options=%7B%22json%22%3A%7B%22xMax%22%3A1%2C%22yMax%22%3A2%7D%7D''"

definition href_480 :: jsstring where
  "href_480 = lit ''https://e.com/?options=%7B%22json%22%3A%7B%22xMax%22%3A%22480%22%7D%7D''"

definition recorded :: platform where
  "recorded =
     \<lparr>URL_new = map_of recorded_URLs,
      searchParams_set =
        (\<lambda>u name val.
           if href u = lit ''https://e.com/?options={%22json%22:{%22xMax%22:%22480%22}}''
              \<and> name = lit ''options'' \<and> val = payload_480
           then \<lparr>href = href_480,
                 search = lit ''?options=%7B%22json%22%3A%7B%22xMax%22%3A%22480%22%7D%7D'',
                 searchParams = [(lit ''options'', payload_480)]\<rparr>
           else if (href u = lit ''https://e.com/?options={%22json%22:{%22xMax%22:1,%22yMax%22:2}}''
                    \<or> href u = lit ''https://e.com/?options={%20%22json%22:%20{%20%22xMax%22:%201,%20%22yMax%22:%202%20}%20}'')
                   \<and> name = lit ''options'' \<and> val = payload_xy
           then \<lparr>href = href_xy,
                 search = lit ''?options=%7B%22json%22%3A%7B%22xMax%22%3A1%2C%22yMax%22%3A2%7D%7D'',
                 searchParams = [(lit ''options'', payload_xy)]\<rparr>
           else u),
      decodeURIComponent =
        map_of
          [([], []),
           (lit ''options'', lit ''options''),
           (lit ''{%22json%22:{%22xMax%22:%22480%22}}'', payload_480),
           (lit ''{%22json%22:{%22xMax%22:1,%22yMax%22:2}}'', payload_xy),
           (lit ''{%20%22json%22:%20{%20%22xMax%22:%201,%20%22yMax%22:%202%20}%20}'', payload_xy_spaced)],
      superjson_parse =
        map_of
          [(payload_xy, JObject fields_xy),
           (payload_yx, JObject fields_yx),
           (payload_xy_spaced, JObject fields_xy),
           (payload_480, JObject fields_480)],
      superjson_stringify =
        (\<lambda>v. if v = JObject fields_xy then payload_xy
             else if v = JObject fields_yx then payload_yx
             else if v = JObject fields_480 then payload_480
             else [])\<rparr>"

text \<open>
  A world in which the launch succeeds and every page gives the same four bytes, and one
  in which the launch is refused.
\<close>

definition world_ok :: world where
  "world_ok =
     \<lparr>Date_now = 1700000000000,
      launch = Inr \<lparr>session = 7, isConnected = True\<rparr>,
      setViewport_rejects = (\<lambda>w h. False),
      goto_rejects = (\<lambda>t. False),
      screenshot = (\<lambda>t w h. Some [0x89, 0x50, 0x4E, 0x47])\<rparr>"

definition world_no_launch :: world where
  "world_no_launch = world_ok\<lparr>launch := Inl (lit ''no browser available'')\<rparr>"

text \<open>A world in which every navigation is rejected.\<close>

definition world_goto_rejects :: world where
  "world_goto_rejects = world_ok\<lparr>goto_rejects := (\<lambda>t. True)\<rparr>"

definition fresh :: browser_do where
  "fresh = constructor Map.empty"

text \<open>The object with a browser that has been idle for fifty seconds.\<close>

definition idle_50 :: browser_do where
  "idle_50 = fresh\<lparr>keptAliveInSeconds := 50, browser := Some \<lparr>session = 7, isConnected = True\<rparr>\<rparr>"

text \<open>
  The same object with an alarm scheduled, and an interleaving that delivers the alarm twice
  while the page navigates and once while the screenshot is stored.
\<close>

definition idle_50_armed :: browser_do where
  "idle_50_armed = idle_50\<lparr>alarm := Some 1699999999000\<rparr>"

definition two_ticks_and_one :: interleaving where
  "two_ticks_and_one p = (if p = AwaitGoto then 2 else if p = AwaitPut then 1 else 0)"

text \<open>The object as the alarm leaves it at the ceiling: the handle closed, still in its field.\<close>

definition closed_60 :: browser_do where
  "closed_60 = fresh\<lparr>keptAliveInSeconds := 60, browser := Some \<lparr>session = 7, isConnected = False\<rparr>\<rparr>"

section \<open>The hash is sixty-four lowercase hexadecimal digits\<close>

lemma length_round256: "length H = 8 \<Longrightarrow> length (round256 H kw) = 8"
proof -
  assume "length H = 8"
  then have "length H = Suc (Suc (Suc (Suc (Suc (Suc (Suc (Suc 0)))))))"
    by simp
  then obtain a b c d e f g h where "H = [a, b, c, d, e, f, g, h]"
    by (auto simp: length_Suc_conv)
  then show ?thesis by (cases kw) (simp add: Let_def)
qed

lemma length_foldl_round256: "length H = 8 \<Longrightarrow> length (foldl round256 H kws) = 8"
  by (induction kws arbitrary: H) (simp_all add: length_round256)

lemma length_compress: "length H = 8 \<Longrightarrow> length (compress H M) = 8"
  by (simp add: compress_def length_foldl_round256)

lemma length_blocks: "length H = 8 \<Longrightarrow> length (blocks H bs) = 8"
proof (induction H bs rule: blocks.induct)
  case (1 H bs)
  show ?case
  proof (cases "length bs < 64")
    case True
    then show ?thesis using "1.prems" by (subst blocks.simps) simp
  next
    case False
    then show ?thesis
      using "1.IH" [OF False] "1.prems" by (subst blocks.simps) (simp add: length_compress)
  qed
qed

lemma length_concat_bytes_of: "length (concat (map bytes_of ws)) = 4 * length ws"
  by (induction ws) (simp_all add: bytes_of_def)

lemma length_sha256: "length (sha256 m) = 32"
  by (simp add: sha256_def length_concat_bytes_of length_blocks H256_def)

lemma below_16: "d < 16 \<Longrightarrow> (d::nat) \<in> {0, 1, 2, 3, 4, 5, 6, 7, 8, 9, 10, 11, 12, 13, 14, 15}"
  by (simp add: numeral_eq_Suc less_Suc_eq)

lemma hexDigit_in: "d < 16 \<Longrightarrow> hexDigit d \<in> set (lit ''0123456789abcdef'')"
  using below_16 [of d] by (auto simp: hexDigit_def lit_def)

lemma hex_pair_length: "length (padStart 2 0x30 (toString16 b)) = 2"
  by (simp add: padStart_def toString16_def)

lemma hex_pair_chars:
  "set (padStart 2 0x30 (toString16 b)) \<subseteq> set (lit ''0123456789abcdef'')"
proof -
  have z: "(0x30 :: code_unit) \<in> set (lit ''0123456789abcdef'')"
    by (simp add: lit_def)
  have "unat b < 256"
    using unsigned_less [of b] by simp
  then have d: "unat b div 16 < 16"
    by simp
  have m: "unat b mod 16 < 16"
    by simp
  show ?thesis
  proof (cases "unat b < 16")
    case True
    then show ?thesis
      using z hexDigit_in [of "unat b"] by (simp add: padStart_def toString16_def)
  next
    case False
    then show ?thesis
      using hexDigit_in [OF d] hexDigit_in [OF m] by (simp add: padStart_def toString16_def)
  qed
qed

lemma length_concat_const:
  "(\<And>x. length (f x) = k) \<Longrightarrow> length (concat (map f xs)) = k * length xs"
  by (induction xs) simp_all

text \<open>
  C5. \<open>hashString\<close> is a function of its argument alone: it reads no state and writes none.
  Its value is the SHA-256 digest of the UTF-8 bytes of the input, each byte written as two
  lowercase hexadecimal digits, high digit first: sixty-four code units, every one of them
  among \<open>0123456789abcdef\<close>.
\<close>

theorem hashString_is_hex_digest:
  "length (hashString s) = 64 \<and>
   list_all (\<lambda>c. c \<in> set (lit ''0123456789abcdef'')) (hashString s) \<and>
   hashString s =
     concat (map (\<lambda>b. [hexDigit (unat b div 16), hexDigit (unat b mod 16)])
       (sha256 (TextEncoder_encode s)))"
proof (intro conjI)
  show "length (hashString s) = 64"
    by (simp add: hashString_def length_concat_const [OF hex_pair_length] length_sha256)
  show "list_all (\<lambda>c. c \<in> set (lit ''0123456789abcdef'')) (hashString s)"
    using hex_pair_chars by (auto simp: hashString_def list_all_iff)
  have "padStart 2 0x30 (toString16 b) = [hexDigit (unat b div 16), hexDigit (unat b mod 16)]"
    for b :: byte
    by (simp add: padStart_def toString16_def hexDigit_def)
  then show "hashString s =
     concat (map (\<lambda>b. [hexDigit (unat b div 16), hexDigit (unat b mod 16)])
       (sha256 (TextEncoder_encode s)))"
    by (simp add: hashString_def)
qed

subsection \<open>The digests of given messages\<close>

lemma canon_id: "canon x = x"
  by (simp add: canon_def)

lemma expand_numeral:
  "expand (numeral k) ws =
     expand (pred_numeral k)
       (canon (sigma1 (ws ! 1) + ws ! 6 + sigma0 (ws ! 14) + ws ! 15) # ws)"
  by (simp add: numeral_eq_Suc canon_id)

lemma replicate_numeral_Cons: "replicate (numeral k) x = x # replicate (pred_numeral k) x"
  by (simp add: numeral_eq_Suc)

lemma Ch_alt: "Ch x y z = z XOR (x AND (y XOR z))"
  unfolding Ch_def by (rule bit_eqI) (auto simp: bit_simps)

lemma round256_canon:
  "round256 [a, b, c, d, e, f, g, h] (k, w) =
     (let T1 = canon (h + Sigma1 e + Ch e f g + k + w);
          T2 = canon (Sigma0 a + Maj a b c)
      in [canon (T1 + T2), a, b, c, canon (d + T1), e, f, g])"
  by (simp add: canon_id)

lemmas hashString_eval = hashString_def TextEncoder_encode_def utf8_def isHighSurrogate_def
  isLowSurrogate_def pad_def bitLength64_def be32_def replicate_numeral_Cons words_of.simps
  schedule_def expand_numeral sigma0_def sigma1_def Sigma0_def Sigma1_def Ch_alt Maj_def
  rotr_def compress_def K256_def H256_def blocks.simps sha256_def bytes_of_def Let_def
  round256_canon canon_def padStart_def toString16_def hexDigit_def lit_def

text \<open>The test vectors of the standard for the empty message and for \<open>abc\<close>.\<close>

lemma hashString_empty:
  "hashString [] = lit ''e3b0c44298fc1c149afbf4c8996fb92427ae41e4649b934ca495991b7852b855''"
  by (simp add: hashString_eval del: round256.simps)

lemma hashString_abc:
  "hashString (lit ''abc'')
     = lit ''ba7816bf8f01cfea414140de5dae2223b00361a396177a9cb410ff61f20015ad''"
  by (simp add: hashString_eval del: round256.simps)

section \<open>The examples, evaluated\<close>

lemmas example_defs = lit_def Let_def request_render_def target_render_def
  request_no_options_def request_no_url_def request_favicon_def request_bad_escape_def
  request_bad_target_def request_xy_def target_xy_def request_xy_spaced_def target_xy_spaced_def
  payload_480_def payload_xy_def payload_yx_def payload_xy_spaced_def href_480_def
  fields_xy_def fields_yx_def fields_480_def

lemma prelude_render:
  "prelude recorded request_render =
     Continue \<lparr>parsedObj = JObject fields_480, optionsStr = payload_480,
               optionsHashed = hashString payload_480, target = href_480\<rparr>"
  by (simp add: prelude_def with_target_def recorded_def recorded_URLs_def searchParams_get_def
      parseSearchParams_def addParam_def truthyParam_def normalize_options_def example_defs)

lemma prelude_favicon: "prelude recorded request_favicon = Done (Inr Response_empty)"
  by (simp add: prelude_def example_defs)

lemma prelude_no_url: "prelude recorded request_no_url = Done (Inr missing_url)"
  by (simp add: prelude_def recorded_def recorded_URLs_def searchParams_get_def example_defs)

lemma prelude_no_options: "prelude recorded request_no_options = Done (Inr missing_options)"
  by (simp add: prelude_def with_target_def recorded_def recorded_URLs_def searchParams_get_def
      parseSearchParams_def addParam_def truthyParam_def example_defs)


lemmas state_defs = fresh_def idle_50_def closed_60_def constructor_def world_ok_def
  world_no_launch_def

section \<open>The alarm\<close>

lemma trace_emit [simp]: "trace (emit e s) = trace s @ [e]"
  by (simp add: emit_def)

lemma new_events_append [simp]: "trace s' = trace s @ es \<Longrightarrow> new_events s s' = es"
  by (simp add: new_events_def)

text \<open>
  C1, as the code has it. Every fire of the alarm adds 10 to the counter. While the sum is
  below 60 a new alarm is set for ten seconds after \<open>Date.now()\<close> and the browser is left
  alone. From 60 on no alarm is set, and a handle that exists is closed: it stays in its
  field, disconnected, and is not replaced by the no-browser value.
\<close>

theorem alarm_adds_ten_then_extends_or_closes:
  "keptAliveInSeconds (Browser_alarm W s) = keptAliveInSeconds s + 10 \<and>
   (keptAliveInSeconds s + 10 < 60 \<longrightarrow>
      alarm (Browser_alarm W s) = Some (Date_now W + 10000) \<and>
      browser (Browser_alarm W s) = browser s \<and>
      new_events s (Browser_alarm W s) =
        [WriteKeptAlive (keptAliveInSeconds s + 10),
         ConsoleLog (Kept_alive (keptAliveInSeconds s + 10)),
         SetAlarm (Date_now W + 10000)]) \<and>
   (60 \<le> keptAliveInSeconds s + 10 \<longrightarrow>
      alarm (Browser_alarm W s) = alarm s \<and>
      \<not> list_ex alarm_write (new_events s (Browser_alarm W s)) \<and>
      browser (Browser_alarm W s) = map_option (\<lambda>b. b\<lparr>isConnected := False\<rparr>) (browser s) \<and>
      (browser s \<noteq> None \<longrightarrow> BrowserClose \<in> set (new_events s (Browser_alarm W s))))"
  by (cases "browser s")
    (simp_all add: Browser_alarm_def KEEP_BROWSER_ALIVE_IN_SECONDS_def Let_def
      console_log_def emit_def new_events_def)

theorem alarm_adds_ten_then_extends_or_closes_witness:
  "keptAliveInSeconds (Browser_alarm world_ok fresh) = 10 \<and>
   alarm (Browser_alarm world_ok fresh) = Some 1700000010000 \<and>
   keptAliveInSeconds (Browser_alarm world_ok idle_50) = 60 \<and>
   alarm (Browser_alarm world_ok idle_50) = None \<and>
   browser (Browser_alarm world_ok idle_50) = Some \<lparr>session = 7, isConnected = False\<rparr> \<and>
   BrowserClose \<in> set (new_events idle_50 (Browser_alarm world_ok idle_50))"
  using alarm_adds_ten_then_extends_or_closes [of world_ok fresh]
    alarm_adds_ten_then_extends_or_closes [of world_ok idle_50]
  by (simp add: state_defs)

text \<open>
  C1 as stated fails: the alarm that takes the counter from 50 to 60 closes the browser and
  leaves the closed handle in the field.
\<close>

theorem alarm_keeps_closed_handle:
  "keptAliveInSeconds (Browser_alarm world_ok idle_50) = 60 \<and>
   browser idle_50 \<noteq> None \<and>
   browser (Browser_alarm world_ok idle_50) \<noteq> None"
  by (simp add: Browser_alarm_def KEEP_BROWSER_ALIVE_IN_SECONDS_def Let_def console_log_def
      emit_def state_defs)

section \<open>The viewport\<close>

lemmas parseInt_defs = parseInt_def lit_def isWhiteSpace_def isRadixDigit_def digitValue_def
  mathInt_def numberOfInt_def roundToDouble_def

lemma getNumber_cases:
  "getNumber v =
     (case v of
        JNumber n \<Rightarrow> (if n = NaN then None else Some n)
      | JString s \<Rightarrow> (if parseInt s = NaN then None else Some (parseInt s))
      | _ \<Rightarrow> None)"
  by (cases v) (simp_all add: getNumber_def notANumber_def Let_def)

lemma orDefault_getNumber:
  "orDefault (getNumber v) d =
     (case v of
        JNumber n \<Rightarrow> (if n = NaN \<or> n = Finite 0 \<or> n = NegZero then d else n)
      | JString s \<Rightarrow>
          (if parseInt s = NaN \<or> parseInt s = Finite 0 \<or> parseInt s = NegZero then d
           else parseInt s)
      | _ \<Rightarrow> d)"
  by (cases v) (auto simp: getNumber_cases orDefault_def truthyNumber_def)

text \<open>
  C4, as the code has it. In an options record, \<open>xMax\<close> gives the width and \<open>yMax\<close> the
  height as follows. A number is taken as it is unless it is NaN or zero. A string is read
  by \<open>parseInt\<close> and the result is taken unless it is NaN or zero. In every other case
  (the field is absent, it is neither a number nor a string, it is NaN, it does not parse,
  or the result is zero) the default stands: 360 for the width, 1600 for the height. The
  string \<open>480\<close> gives the width 480.
\<close>

theorem viewport_resolution:
  "xMax_of (JObject props) =
     Inr (case map_of props (lit ''xMax'') of
            Some (JNumber n) \<Rightarrow>
              (if n = NaN \<or> n = Finite 0 \<or> n = NegZero then Finite 360 else n)
          | Some (JString s) \<Rightarrow>
              (if parseInt s = NaN \<or> parseInt s = Finite 0 \<or> parseInt s = NegZero
               then Finite 360 else parseInt s)
          | _ \<Rightarrow> Finite 360) \<and>
   yMax_of (JObject props) =
     Inr (case map_of props (lit ''yMax'') of
            Some (JNumber n) \<Rightarrow>
              (if n = NaN \<or> n = Finite 0 \<or> n = NegZero then Finite 1600 else n)
          | Some (JString s) \<Rightarrow>
              (if parseInt s = NaN \<or> parseInt s = Finite 0 \<or> parseInt s = NegZero
               then Finite 1600 else parseInt s)
          | _ \<Rightarrow> Finite 1600) \<and>
   xMax_of (JObject [(lit ''xMax'', JString (lit ''480''))]) = Inr (Finite 480) \<and>
   xMax_of (JObject []) = Inr (Finite 360) \<and>
   yMax_of (JObject []) = Inr (Finite 1600)"
proof (intro conjI)
  show "xMax_of (JObject props) =
     Inr (case map_of props (lit ''xMax'') of
            Some (JNumber n) \<Rightarrow>
              (if n = NaN \<or> n = Finite 0 \<or> n = NegZero then Finite 360 else n)
          | Some (JString s) \<Rightarrow>
              (if parseInt s = NaN \<or> parseInt s = Finite 0 \<or> parseInt s = NegZero
               then Finite 360 else parseInt s)
          | _ \<Rightarrow> Finite 360)"
    by (simp add: xMax_of_def orDefault_getNumber getNumber_def notANumber_def orDefault_def
        truthyNumber_def split: option.split jsval.split)
  show "yMax_of (JObject props) =
     Inr (case map_of props (lit ''yMax'') of
            Some (JNumber n) \<Rightarrow>
              (if n = NaN \<or> n = Finite 0 \<or> n = NegZero then Finite 1600 else n)
          | Some (JString s) \<Rightarrow>
              (if parseInt s = NaN \<or> parseInt s = Finite 0 \<or> parseInt s = NegZero
               then Finite 1600 else parseInt s)
          | _ \<Rightarrow> Finite 1600)"
    by (simp add: yMax_of_def orDefault_getNumber getNumber_def notANumber_def orDefault_def
        truthyNumber_def split: option.split jsval.split)
  show "xMax_of (JObject [(lit ''xMax'', JString (lit ''480''))]) = Inr (Finite 480)"
    by (simp add: xMax_of_def getNumber_def notANumber_def orDefault_def truthyNumber_def
        parseInt_defs)
  show "xMax_of (JObject []) = Inr (Finite 360)"
    by (simp add: xMax_of_def getNumber_def notANumber_def orDefault_def truthyNumber_def)
  show "yMax_of (JObject []) = Inr (Finite 1600)"
    by (simp add: yMax_of_def getNumber_def notANumber_def orDefault_def truthyNumber_def)
qed

text \<open>
  C4 as stated fails: the number 0 is not taken as it is. An options record with
  \<open>xMax = 0\<close> gets the width 360.
\<close>

theorem zero_width_is_not_accepted:
  "xMax_of (JObject [(lit ''xMax'', JNumber (Finite 0))]) = Inr (Finite 360) \<and>
   xMax_of (JObject [(lit ''xMax'', JNumber (Finite 0))]) \<noteq> Inr (Finite 0)"
  by (simp add: xMax_of_def getNumber_def notANumber_def orDefault_def truthyNumber_def lit_def)

text \<open>
  C9. When \<open>xMax\<close> (or \<open>yMax\<close>) is the number 0, or a string that \<open>parseInt\<close> reads as zero,
  the width is 360 (the height 1600) and not 0: the default replaces every falsy result.
\<close>

theorem zero_dimension_falls_back_to_default:
  assumes "v = JNumber (Finite 0) \<or> v = JNumber NegZero \<or>
           (v = JString str \<and> (parseInt str = Finite 0 \<or> parseInt str = NegZero))"
  shows "(map_of props (lit ''xMax'') = Some v \<longrightarrow> xMax_of (JObject props) = Inr (Finite 360)) \<and>
         (map_of props (lit ''yMax'') = Some v \<longrightarrow> yMax_of (JObject props) = Inr (Finite 1600))"
  using assms by (auto simp: xMax_of_def yMax_of_def orDefault_getNumber)

theorem zero_dimension_falls_back_to_default_witness:
  "parseInt (lit ''0'') = Finite 0 \<and>
   xMax_of (JObject [(lit ''xMax'', JString (lit ''0'')), (lit ''yMax'', JNumber (Finite 0))])
     = Inr (Finite 360) \<and>
   yMax_of (JObject [(lit ''xMax'', JString (lit ''0'')), (lit ''yMax'', JNumber (Finite 0))])
     = Inr (Finite 1600)"
proof -
  have p: "parseInt (lit ''0'') = Finite 0"
    by (simp add: parseInt_defs)
  have x: "map_of [(lit ''xMax'', JString (lit ''0'')), (lit ''yMax'', JNumber (Finite 0))]
             (lit ''xMax'') = Some (JString (lit ''0''))"
    by (simp add: lit_def)
  have y: "map_of [(lit ''xMax'', JString (lit ''0'')), (lit ''yMax'', JNumber (Finite 0))]
             (lit ''yMax'') = Some (JNumber (Finite 0))"
    by (simp add: lit_def)
  show ?thesis
    using zero_dimension_falls_back_to_default
        [of "JString (lit ''0'')" "lit ''0''"
          "[(lit ''xMax'', JString (lit ''0'')), (lit ''yMax'', JNumber (Finite 0))]"]
      zero_dimension_falls_back_to_default
        [of "JNumber (Finite 0)" "[]"
          "[(lit ''xMax'', JString (lit ''0'')), (lit ''yMax'', JNumber (Finite 0))]"]
      p x y
    by simp
qed

section \<open>The fetch of the Durable Object\<close>

lemma launch_if_needed_trace:
  "trace (launch_if_needed W s) = trace s @ launch_events W s"
  by (simp add: launch_if_needed_def launch_events_def console_log_def emit_def Let_def
      split: option.split sum.split)

lemma launch_if_needed_fields:
  "kv (launch_if_needed W s) = kv s \<and> alarm (launch_if_needed W s) = alarm s \<and>
   keptAliveInSeconds (launch_if_needed W s) = keptAliveInSeconds s"
  by (simp add: launch_if_needed_def console_log_def emit_def Let_def
      split: option.split sum.split)

lemma arm_alarm_eq:
  "arm_alarm W s =
     s\<lparr>trace := trace s @ alarm_events W s,
       alarm := (case alarm s of None \<Rightarrow> Some (Date_now W + 10000) | Some t \<Rightarrow> Some t)\<rparr>"
  by (cases "alarm s") (simp_all add: arm_alarm_def alarm_events_def console_log_def emit_def Let_def)

lemma page_work_Inr:
  "page_work W b job s = (Inr img, s') \<Longrightarrow>
     \<exists>xMax yMax.
       xMax_of (parsedObj job) = Inr xMax \<and> yMax_of (parsedObj job) = Inr yMax \<and>
       screenshot W (target job) xMax yMax = Some img \<and> isConnected b \<and>
       s' = s\<lparr>trace := trace s @ [NewPage, SetViewport xMax yMax, Goto (target job), Screenshot]\<rparr>"
  by (auto simp: page_work_def emit_def Let_def split: if_splits sum.splits option.splits)

lemma page_work_Inl:
  "page_work W b job s = (Inl e, s') \<Longrightarrow>
     \<exists>es. s' = s\<lparr>trace := trace s @ NewPage # es\<rparr> \<and> PageClose \<notin> set es \<and>
          \<not> list_ex counter_write es"
  by (auto simp: page_work_def emit_def Let_def split: if_splits sum.splits option.splits)

lemma render_Inr:
  "render W b job s = (Inr img, s') \<Longrightarrow>
     \<exists>xMax yMax shot.
       img = Some shot \<and>
       xMax_of (parsedObj job) = Inr xMax \<and> yMax_of (parsedObj job) = Inr yMax \<and>
       screenshot W (target job) xMax yMax = Some shot \<and> isConnected b \<and>
       s' = s\<lparr>keptAliveInSeconds := 0,
               kv := (kv s)(optionsHashed job \<mapsto> (shot, 86400)),
               trace := trace s @
                 [WriteKeptAlive 0, NewPage, SetViewport xMax yMax, Goto (target job), Screenshot,
                  KvPut (optionsHashed job) shot 86400, PageClose, WriteKeptAlive 0]\<rparr>"
  by (auto simp: render_def KV_put_def emit_def Let_def split: prod.splits sum.splits
      dest!: page_work_Inr)

lemma render_Inl:
  "render W b job s = (Inl e, s') \<Longrightarrow>
     \<exists>es. s' = s\<lparr>keptAliveInSeconds := 0, trace := trace s @ WriteKeptAlive 0 # NewPage # es\<rparr> \<and>
          PageClose \<notin> set es"
  by (auto simp: render_def KV_put_def emit_def Let_def split: prod.splits sum.splits
      dest!: page_work_Inl)

text \<open>The three ways through \<open>Browser.fetch\<close> once the request carries options.\<close>

lemma Browser_fetch_Done:
  "prelude P request_url = Done r \<Longrightarrow> Browser_fetch P W request_url s = (r, s)"
  by (simp add: Browser_fetch_def)

lemma Browser_fetch_hit:
  "prelude P request_url = Continue job \<Longrightarrow> kv s (optionsHashed job) = Some (v, ttl) \<Longrightarrow>
   Browser_fetch P W request_url s =
     (Inr (Response_image (Some v)),
      arm_alarm W (emit (KvGet (optionsHashed job)) (launch_if_needed W s)))"
  by (simp add: Browser_fetch_def KV_get_def Let_def launch_if_needed_fields)

lemma Browser_fetch_no_browser:
  "prelude P request_url = Continue job \<Longrightarrow> kv s (optionsHashed job) = None \<Longrightarrow>
   browser (launch_if_needed W s) = None \<Longrightarrow>
   Browser_fetch P W request_url s =
     (Inr (Response_image None),
      arm_alarm W (emit (KvGet (optionsHashed job)) (launch_if_needed W s)))"
  by (simp add: Browser_fetch_def KV_get_def Let_def launch_if_needed_fields emit_def)

lemma Browser_fetch_render:
  "prelude P request_url = Continue job \<Longrightarrow> kv s (optionsHashed job) = None \<Longrightarrow>
   browser (launch_if_needed W s) = Some b \<Longrightarrow>
   Browser_fetch P W request_url s =
     (case render W b job (emit (KvGet (optionsHashed job)) (launch_if_needed W s)) of
        (Inl e, s') \<Rightarrow> (Inl e, s')
      | (Inr img, s') \<Rightarrow> (Inr (Response_image img), arm_alarm W s'))"
  by (simp add: Browser_fetch_def KV_get_def Let_def launch_if_needed_fields emit_def
      split: prod.split sum.split)

lemma launch_events_quiet:
  "\<not> list_ex page_event (launch_events W s) \<and> \<not> list_ex counter_write (launch_events W s) \<and>
   \<not> list_ex alarm_write (launch_events W s) \<and> PageClose \<notin> set (launch_events W s)"
  by (simp add: launch_events_def split: option.split sum.split)

lemma alarm_events_quiet:
  "\<not> list_ex page_event (alarm_events W s) \<and> \<not> list_ex counter_write (alarm_events W s) \<and>
   PageClose \<notin> set (alarm_events W s)"
  by (simp add: alarm_events_def)

lemmas handler_defs = Browser_fetch_def launch_if_needed_def KV_get_def KV_put_def render_def
  page_work_def arm_alarm_def console_log_def emit_def Response_image_def Let_def
  xMax_of_def yMax_of_def getNumber_def notANumber_def orDefault_def truthyNumber_def

lemma fetch_render_idle_50:
  "Browser_fetch recorded world_ok request_render idle_50 =
     (Inr (Response_image (Some [0x89, 0x50, 0x4E, 0x47])),
      idle_50
       \<lparr>kv := [hashString payload_480 \<mapsto> ([0x89, 0x50, 0x4E, 0x47], 86400)],
        trace :=
          [KvGet (hashString payload_480), WriteKeptAlive 0, NewPage,
           SetViewport (Finite 480) (Finite 1600), Goto href_480, Screenshot,
           KvPut (hashString payload_480) [0x89, 0x50, 0x4E, 0x47] 86400, PageClose,
           WriteKeptAlive 0, GetAlarm, ConsoleLog Setting_alarm, SetAlarm 1700000010000],
        keptAliveInSeconds := 0,
        alarm := Some 1700000010000\<rparr>)"
  by (simp add: prelude_render handler_defs state_defs fields_480_def parseInt_defs)

lemma fetch_closed_60_no_launch:
  "Browser_fetch recorded world_no_launch request_render closed_60 =
     (Inl (Exn ProtocolError),
      closed_60
       \<lparr>trace :=
          [ConsoleLog Starting_new_instance, Launch,
           ConsoleLog (Could_not_start (lit ''no browser available'')),
           KvGet (hashString payload_480), WriteKeptAlive 0, NewPage],
        keptAliveInSeconds := 0\<rparr>)"
  by (simp add: prelude_render handler_defs state_defs fields_480_def)

section \<open>The counter around a render\<close>

text \<open>
  The facts below are about \<open>Browser_fetch_interleaved\<close>. With nothing delivered it is
  \<open>Browser_fetch\<close>.
\<close>

lemma written_append: "written (xs @ ys) = written xs @ written ys"
  by (induction xs rule: written.induct) simp_all

lemma climbs_append: "climbs k (xs @ ys) \<longleftrightarrow> climbs k xs \<and> climbs (last (k # xs)) ys"
  by (induction xs arbitrary: k) auto

lemma climbs_last: "climbs k ws \<Longrightarrow> last (k # ws) = k + 10 * int (length ws)"
  by (induction ws arbitrary: k) auto

lemma only_ticksI:
  assumes "trace s' = trace s @ es" and "NewPage \<notin> set es" and "PageClose \<notin> set es"
    and "climbs (keptAliveInSeconds s) (written es)"
    and "keptAliveInSeconds s' = last (keptAliveInSeconds s # written es)"
  shows "only_ticks s s'"
  using assms by (simp add: only_ticks_def new_events_def)

lemma only_ticks_refl: "only_ticks s s"
  by (rule only_ticksI [where es = "[]"]) simp_all

lemma only_ticksD:
  assumes "only_ticks s s'"
  obtains es where "trace s' = trace s @ es" and "new_events s s' = es"
    and "NewPage \<notin> set es" and "PageClose \<notin> set es"
    and "climbs (keptAliveInSeconds s) (written es)"
    and "keptAliveInSeconds s' = last (keptAliveInSeconds s # written es)"
  using assms unfolding only_ticks_def by blast

lemma only_ticks_trans:
  assumes "only_ticks s t" and "only_ticks t u"
  shows "only_ticks s u"
proof -
  from assms(1) obtain es1 where 1: "trace t = trace s @ es1"
    "NewPage \<notin> set es1" "PageClose \<notin> set es1"
    "climbs (keptAliveInSeconds s) (written es1)"
    "keptAliveInSeconds t = last (keptAliveInSeconds s # written es1)"
    by (rule only_ticksD)
  from assms(2) obtain es2 where 2: "trace u = trace t @ es2"
    "NewPage \<notin> set es2" "PageClose \<notin> set es2"
    "climbs (keptAliveInSeconds t) (written es2)"
    "keptAliveInSeconds u = last (keptAliveInSeconds t # written es2)"
    by (rule only_ticksD)
  show ?thesis
  proof (rule only_ticksI [where es = "es1 @ es2"])
    show "trace u = trace s @ es1 @ es2" by (simp add: 1(1) 2(1))
    show "NewPage \<notin> set (es1 @ es2)" using 1(2) 2(2) by simp
    show "PageClose \<notin> set (es1 @ es2)" using 1(3) 2(3) by simp
    show "climbs (keptAliveInSeconds s) (written (es1 @ es2))"
      using 1(4) 2(4) by (simp add: written_append climbs_append 1(5))
    show "keptAliveInSeconds u = last (keptAliveInSeconds s # written (es1 @ es2))"
      by (simp add: written_append 1(5) 2(5))
  qed
qed

lemma only_ticks_emit:
  "e \<noteq> NewPage \<Longrightarrow> e \<noteq> PageClose \<Longrightarrow> \<not> counter_write e \<Longrightarrow> only_ticks s (emit e s)"
  by (rule only_ticksI [where es = "[e]"]; cases e; simp add: emit_def)

lemma deliver_alarm_trace:
  "alarm s = Some t \<Longrightarrow>
   trace (deliver_alarm W s) = trace s @ tick_events W s \<and>
   keptAliveInSeconds (deliver_alarm W s) = keptAliveInSeconds s + 10"
  by (simp add: deliver_alarm_def Browser_alarm_def console_log_def emit_def Let_def
      tick_events_def KEEP_BROWSER_ALIVE_IN_SECONDS_def split: option.split)

lemma only_ticks_deliver_alarm: "only_ticks s (deliver_alarm W s)"
proof (cases "alarm s")
  case None
  then show ?thesis by (simp add: deliver_alarm_def only_ticks_refl)
next
  case (Some t)
  show ?thesis
  proof (rule only_ticksI [where es = "tick_events W s"])
    show "trace (deliver_alarm W s) = trace s @ tick_events W s"
      using deliver_alarm_trace [OF Some] by simp
    show "NewPage \<notin> set (tick_events W s)"
      by (simp add: tick_events_def split: option.split)
    show "PageClose \<notin> set (tick_events W s)"
      by (simp add: tick_events_def split: option.split)
    show "climbs (keptAliveInSeconds s) (written (tick_events W s))"
      by (simp add: tick_events_def split: option.split)
    show "keptAliveInSeconds (deliver_alarm W s)
        = last (keptAliveInSeconds s # written (tick_events W s))"
      using deliver_alarm_trace [OF Some] by (simp add: tick_events_def split: option.split)
  qed
qed

lemma only_ticks_deliveries: "only_ticks s (deliveries W n s)"
proof (induction n arbitrary: s)
  case 0
  show ?case by (simp add: only_ticks_refl)
next
  case (Suc n)
  show ?case
    using only_ticks_trans [OF only_ticks_deliver_alarm Suc] by simp
qed

lemma only_ticks_awaiting: "only_ticks s (awaiting W I p s)"
  by (simp add: awaiting_def only_ticks_deliveries)


lemma only_ticks_then_awaiting: "only_ticks s t \<Longrightarrow> only_ticks s (awaiting W I p t)"
  by (rule only_ticks_trans [OF _ only_ticks_awaiting])

lemma only_ticks_then_emit:
  "only_ticks s t \<Longrightarrow> e \<noteq> NewPage \<Longrightarrow> e \<noteq> PageClose \<Longrightarrow> \<not> counter_write e \<Longrightarrow>
   only_ticks s (emit e t)"
  by (rule only_ticks_trans [OF _ only_ticks_emit])

lemma only_ticks_same:
  assumes "only_ticks s t" and "trace u = trace t" and "keptAliveInSeconds u = keptAliveInSeconds t"
  shows "only_ticks s u"
proof -
  from assms(1) obtain es where 1: "trace t = trace s @ es"
    "NewPage \<notin> set es" "PageClose \<notin> set es"
    "climbs (keptAliveInSeconds s) (written es)"
    "keptAliveInSeconds t = last (keptAliveInSeconds s # written es)"
    by (rule only_ticksD)
  show ?thesis
    by (rule only_ticksI [where es = es]) (simp_all add: 1 assms(2,3))
qed

lemma only_ticks_then_KV_put: "only_ticks s t \<Longrightarrow> only_ticks s (KV_put k v ttl t)"
proof -
  assume a: "only_ticks s t"
  have "only_ticks s (emit (KvPut k v ttl) t)"
    by (rule only_ticks_then_emit [OF a]) simp_all
  then show ?thesis
    by (rule only_ticks_same) (simp_all add: KV_put_def emit_def)
qed

lemma only_ticks_then_launch:
  assumes "only_ticks s t"
  shows "only_ticks s (launch_if_needed_interleaved W I t)"
proof -
  let ?u = "awaiting W I AwaitLaunch (emit Launch (console_log Starting_new_instance t))"
  have u: "only_ticks s ?u"
    unfolding console_log_def
    by (intro only_ticks_then_awaiting only_ticks_then_emit assms) simp_all
  have b: "only_ticks s (?u\<lparr>browser := Some b\<rparr>)" for b
    by (rule only_ticks_same [OF u]) simp_all
  have c: "only_ticks s (console_log (Could_not_start e) ?u)" for e
    unfolding console_log_def [of "Could_not_start e"]
    by (rule only_ticks_then_emit [OF u]) simp_all
  show ?thesis
    using assms b c
    by (simp add: launch_if_needed_interleaved_def Let_def split: sum.split)
qed

lemma kv_deliveries [simp]: "kv (deliveries W n s) = kv s"
proof (induction n arbitrary: s)
  case 0
  show ?case by simp
next
  case (Suc n)
  have "kv (deliver_alarm W s) = kv s"
    by (simp add: deliver_alarm_def Browser_alarm_def console_log_def emit_def Let_def
        split: option.split)
  then show ?case by (simp add: Suc)
qed

lemma browser_deliveries [simp]: "browser (deliveries W n s) = None \<longleftrightarrow> browser s = None"
proof (induction n arbitrary: s)
  case 0
  show ?case by simp
next
  case (Suc n)
  have "browser (deliver_alarm W s) = None \<longleftrightarrow> browser s = None"
    by (simp add: deliver_alarm_def Browser_alarm_def console_log_def emit_def Let_def
        split: option.split)
  then show ?case by (simp add: Suc)
qed

lemma browser_deliveries_Some [simp]:
  "(\<exists>y. browser (deliveries W n s) = Some y) \<longleftrightarrow> browser s \<noteq> None"
  using browser_deliveries [of W n s] by (metis not_None_eq)

lemma kv_launch_interleaved [simp]: "kv (launch_if_needed_interleaved W I s) = kv s"
  by (simp add: launch_if_needed_interleaved_def awaiting_def console_log_def emit_def Let_def
      split: sum.split)

lemma browser_launch_interleaved:
  "browser (launch_if_needed_interleaved W I s) = None \<longleftrightarrow> browser s = None \<and> isl (launch W)"
  by (cases "launch W"; cases "browser s")
     (simp_all add: launch_if_needed_interleaved_def awaiting_def console_log_def emit_def Let_def)

lemma page_work_interleaved_ticks:
  assumes "page_work_interleaved W I job s = (q, s')"
  shows "only_ticks (emit NewPage s) s'"
  using assms
  by (auto simp: page_work_interleaved_def Let_def split: if_splits sum.splits option.splits
      intro!: only_ticks_then_awaiting only_ticks_then_emit only_ticks_awaiting)


lemma render_interleaved_cases:
  assumes "render_interleaved W I job s = (q, s')"
  shows "case q of
           Inl e \<Rightarrow>
             only_ticks (emit NewPage (emit (WriteKeptAlive 0) (s\<lparr>keptAliveInSeconds := 0\<rparr>))) s'
         | Inr img \<Rightarrow>
             (\<exists>t. only_ticks (emit NewPage (emit (WriteKeptAlive 0) (s\<lparr>keptAliveInSeconds := 0\<rparr>))) t \<and>
                  s' = emit (WriteKeptAlive 0) ((emit PageClose t)\<lparr>keptAliveInSeconds := 0\<rparr>))"
proof -
  let ?s0 = "emit (WriteKeptAlive 0) (s\<lparr>keptAliveInSeconds := 0\<rparr>)"
  obtain p s2 where p: "page_work_interleaved W I job ?s0 = (p, s2)"
    by (cases "page_work_interleaved W I job ?s0")
  have 2: "only_ticks (emit NewPage ?s0) s2"
    by (rule page_work_interleaved_ticks [OF p])
  show ?thesis
  proof (cases p)
    case (Inl e)
    then show ?thesis
      using assms p 2 by (auto simp: render_interleaved_def)
  next
    case (Inr img)
    let ?t = "awaiting W I AwaitPageClose
                (awaiting W I AwaitPut (KV_put (optionsHashed job) img (60 * 60 * 24) s2))"
    have t: "only_ticks (emit NewPage ?s0) ?t"
      by (intro only_ticks_then_awaiting only_ticks_then_KV_put 2)
    show ?thesis
    proof (cases "connected ?t")
      case True
      then show ?thesis
        using assms p Inr t by (auto simp: render_interleaved_def Let_def)
    next
      case False
      then show ?thesis
        using assms p Inr t by (auto simp: render_interleaved_def Let_def)
    qed
  qed
qed

lemma keptAliveInSeconds_emit: "keptAliveInSeconds (emit e s) = keptAliveInSeconds s"
  by (simp add: emit_def)

lemma written_alarm_events [simp]: "written (alarm_events W s) = []"
  by (simp add: alarm_events_def)

lemma page_event_alarm_events [simp]: "\<not> list_ex page_event (alarm_events W s)"
  by (simp add: alarm_events_def)

lemma no_render_on_hit_or_without_browser:
  assumes "prelude P request_url = Continue job"
    and "kv s (optionsHashed job) \<noteq> None \<or> (browser s = None \<and> isl (launch W))"
    and "Browser_fetch_interleaved P W I request_url s = (r, s')"
  shows "NewPage \<notin> set (new_events s s')"
proof -
  let ?k = "optionsHashed job"
  let ?s2 = "launch_if_needed_interleaved W I (awaiting W I AwaitDigest s)"
  let ?s4 = "awaiting W I AwaitGet (emit (KvGet ?k) ?s2)"
  have 4: "only_ticks s ?s4"
    by (intro only_ticks_then_awaiting only_ticks_then_emit only_ticks_then_launch
        only_ticks_awaiting) simp_all
  then obtain pre where pre: "trace ?s4 = trace s @ pre" "NewPage \<notin> set pre"
    by (rule only_ticksD)
  have c: "kv ?s2 ?k \<noteq> None \<or> browser ?s4 = None"
    using assms(2) by (auto simp: awaiting_def emit_def browser_launch_interleaved)
  have "s' = arm_alarm W ?s4"
    using assms(1,3) c
    by (auto simp: Browser_fetch_interleaved_def KV_get_def Let_def)
  then have "trace s' = trace s @ (pre @ alarm_events W ?s4)"
    unfolding arm_alarm_eq pre(1) by (simp add: pre(1))
  then have "new_events s s' = pre @ alarm_events W ?s4"
    by (rule new_events_append)
  then show ?thesis
    using pre(2) by (simp add: alarm_events_def)
qed

lemma page_work_no_deliveries:
  "browser s = Some b \<Longrightarrow> page_work_interleaved W (\<lambda>p. 0) job s = page_work W b job s"
  by (simp add: page_work_interleaved_def page_work_def awaiting_def connected_def emit_def
      Let_def split: sum.split option.split)

lemma page_work_browser:
  "page_work W b job s = (q, s') \<Longrightarrow> browser s' = browser s"
  by (auto simp: page_work_def emit_def Let_def split: if_splits sum.splits option.splits)

lemma render_no_deliveries:
  assumes "browser s = Some b"
  shows "render_interleaved W (\<lambda>p. 0) job s = render W b job s"
proof -
  let ?s0 = "emit (WriteKeptAlive 0) (s\<lparr>keptAliveInSeconds := 0\<rparr>)"
  have b: "browser ?s0 = Some b"
    using assms by (simp add: emit_def)
  obtain q s1 where p: "page_work W b job ?s0 = (q, s1)"
    by (cases "page_work W b job ?s0")
  have c: "isConnected b" "browser s1 = Some b" if "q = Inr img" for img
    using p page_work_Inr [of W b job ?s0 img s1] page_work_browser [OF p] b that by auto
  have pw: "page_work_interleaved W (\<lambda>p. 0) job ?s0 = (q, s1)"
    using page_work_no_deliveries [OF b] p by simp
  show ?thesis
    unfolding render_interleaved_def render_def Let_def pw p
    using c
    by (cases q) (simp_all add: awaiting_def connected_def KV_put_def emit_def)
qed

lemma launch_no_deliveries:
  "launch_if_needed_interleaved W (\<lambda>p. 0) s = launch_if_needed W s"
  by (simp add: launch_if_needed_interleaved_def launch_if_needed_def awaiting_def)

lemma Browser_fetch_no_deliveries:
  "Browser_fetch_interleaved P W (\<lambda>p. 0) request_url s = Browser_fetch P W request_url s"
proof (cases "prelude P request_url")
  case (Done r)
  then show ?thesis
    by (simp add: Browser_fetch_interleaved_def Browser_fetch_def)
next
  case (Continue job)
  let ?s2 = "emit (KvGet (optionsHashed job)) (launch_if_needed W s)"
  show ?thesis
  proof (cases "browser ?s2")
    case None
    then show ?thesis
      using Continue
      by (simp add: Browser_fetch_interleaved_def Browser_fetch_def launch_no_deliveries
          awaiting_def KV_get_def Let_def)
  next
    case (Some b)
    then show ?thesis
      using Continue render_no_deliveries [OF Some]
      by (simp add: Browser_fetch_interleaved_def Browser_fetch_def launch_no_deliveries
          awaiting_def KV_get_def Let_def)
  qed
qed

text \<open>
  C7, as the code has it. Take any request that begins a render: it carries options, the
  cache has nothing under its key, and the object holds a browser or the launch gives one.
  Whatever alarms the platform delivers at the awaits of the request, the counter is
  written to zero and the very next event is the opening of the page; no page was opened
  before. From there to the end of the render the counter only climbs from that zero in
  steps of ten, one for each alarm: every alarm delivered during the render finds the
  counter as the reset, or the alarm before it, left it. When the request is answered, the
  page has been closed and the very next event is the second write of zero; nothing after
  it writes the counter or touches a page, and the counter is zero when the request ends.
  When the request ends in an exception, no page has been closed, there is no second write
  of zero, and the counter is left at ten times the number of alarms delivered since the
  first. In every case the counter of the final state is what the last write of the trace
  left.
\<close>

theorem render_resets_counter_before_and_after:
  assumes "prelude P request_url = Continue job"
    and "kv s (optionsHashed job) = None"
    and "browser s \<noteq> None \<or> \<not> isl (launch W)"
    and "Browser_fetch_interleaved P W I request_url s = (r, s')"
  shows "\<exists>pre rest.
      new_events s s' = pre @ WriteKeptAlive 0 # NewPage # rest \<and>
      NewPage \<notin> set pre \<and> PageClose \<notin> set pre \<and>
      keptAliveInSeconds s' = last (keptAliveInSeconds s # written (new_events s s')) \<and>
      (case r of
         Inl e \<Rightarrow>
           climbs 0 (written rest) \<and> NewPage \<notin> set rest \<and> PageClose \<notin> set rest \<and>
           keptAliveInSeconds s' = 10 * int (length (written rest))
       | Inr resp \<Rightarrow>
           (\<exists>mid post.
              rest = mid @ PageClose # WriteKeptAlive 0 # post \<and>
              climbs 0 (written mid) \<and> NewPage \<notin> set mid \<and> PageClose \<notin> set mid \<and>
              written post = [] \<and> \<not> list_ex page_event post \<and>
              keptAliveInSeconds s' = 0))"
proof -
  let ?k = "optionsHashed job"
  let ?s2 = "launch_if_needed_interleaved W I (awaiting W I AwaitDigest s)"
  let ?s4 = "awaiting W I AwaitGet (emit (KvGet ?k) ?s2)"
  let ?s6 = "emit NewPage (emit (WriteKeptAlive 0) (?s4\<lparr>keptAliveInSeconds := 0\<rparr>))"
  have 4: "only_ticks s ?s4"
    by (intro only_ticks_then_awaiting only_ticks_then_emit only_ticks_then_launch
        only_ticks_awaiting) simp_all
  then obtain pre where pre: "trace ?s4 = trace s @ pre" "NewPage \<notin> set pre"
    "PageClose \<notin> set pre"
    by (rule only_ticksD)
  have miss: "kv ?s2 ?k = None"
    using assms(2) by (simp add: awaiting_def)
  have live: "browser ?s4 \<noteq> None"
    using assms(3) by (simp add: awaiting_def emit_def browser_launch_interleaved)
  obtain q s5 where q: "render_interleaved W I job ?s4 = (q, s5)"
    by (cases "render_interleaved W I job ?s4")
  have f: "(r, s') =
      (case q of Inl e \<Rightarrow> (Inl e, s5)
       | Inr img \<Rightarrow> (Inr (Response_image img), arm_alarm W s5))"
    using assms(1,4) miss live q
    by (cases q) (auto simp: Browser_fetch_interleaved_def KV_get_def Let_def)
  have 6: "trace ?s6 = trace s @ pre @ [WriteKeptAlive 0, NewPage]" "keptAliveInSeconds ?s6 = 0"
    by (simp_all add: pre(1) keptAliveInSeconds_emit)
  show ?thesis
  proof (cases q)
    case (Inl e)
    then have "only_ticks ?s6 s5"
      using render_interleaved_cases [OF q] by simp
    then obtain rest where rest: "trace s5 = trace ?s6 @ rest" "NewPage \<notin> set rest"
      "PageClose \<notin> set rest" "climbs (keptAliveInSeconds ?s6) (written rest)"
      "keptAliveInSeconds s5 = last (keptAliveInSeconds ?s6 # written rest)"
      by (rule only_ticksD)
    have r: "r = Inl e" "s' = s5"
      using f Inl by simp_all
    have "trace s' = trace s @ (pre @ WriteKeptAlive 0 # NewPage # rest)"
      unfolding r(2) rest(1) 6(1) by simp
    then have n: "new_events s s' = pre @ WriteKeptAlive 0 # NewPage # rest"
      by (rule new_events_append)
    have link: "keptAliveInSeconds s' = last (keptAliveInSeconds s # written (new_events s s'))"
      unfolding n by (simp add: written_append r(2) rest(5) 6(2))
    have c: "climbs 0 (written rest)"
      using rest(4) unfolding 6(2) .
    have fin: "keptAliveInSeconds s' = 10 * int (length (written rest))"
      using climbs_last [OF c] rest(5) unfolding 6(2) r(2) by simp
    show ?thesis
      unfolding r(1)
      by (rule exI [of _ pre], rule exI [of _ rest])
        (use n link c fin pre(2,3) rest(2,3) in simp)
  next
    case (Inr img)
    then obtain t where t: "only_ticks ?s6 t"
      "s5 = emit (WriteKeptAlive 0) ((emit PageClose t)\<lparr>keptAliveInSeconds := 0\<rparr>)"
      using render_interleaved_cases [OF q] by auto
    from t(1) obtain mid where mid: "trace t = trace ?s6 @ mid" "NewPage \<notin> set mid"
      "PageClose \<notin> set mid" "climbs (keptAliveInSeconds ?s6) (written mid)"
      by (rule only_ticksD)
    have r: "r = Inr (Response_image img)" "s' = arm_alarm W s5"
      using f Inr by simp_all
    have "trace t = trace s @ (pre @ WriteKeptAlive 0 # NewPage # mid)"
      unfolding mid(1) 6(1) by simp
    then have "trace s5 = trace s @
        (pre @ WriteKeptAlive 0 # NewPage # mid @ [PageClose, WriteKeptAlive 0])"
      unfolding t(2) by simp
    then have "trace s' = trace s @
        (pre @ WriteKeptAlive 0 # NewPage # mid @ PageClose # WriteKeptAlive 0 # alarm_events W s5)"
      unfolding r(2) arm_alarm_eq by simp
    then have n: "new_events s s' =
        pre @ WriteKeptAlive 0 # NewPage # mid @ PageClose # WriteKeptAlive 0 # alarm_events W s5"
      by (rule new_events_append)
    have k: "keptAliveInSeconds s' = 0"
      by (simp add: r(2) arm_alarm_eq t(2) emit_def)
    have link: "keptAliveInSeconds s' = last (keptAliveInSeconds s # written (new_events s s'))"
      unfolding n by (simp add: written_append k)
    have c: "climbs 0 (written mid)"
      using mid(4) unfolding 6(2) .
    have inner: "\<exists>m post.
        mid @ PageClose # WriteKeptAlive 0 # alarm_events W s5
          = m @ PageClose # WriteKeptAlive 0 # post \<and>
        climbs 0 (written m) \<and> NewPage \<notin> set m \<and> PageClose \<notin> set m \<and>
        written post = [] \<and> \<not> list_ex page_event post \<and> keptAliveInSeconds s' = 0"
      by (rule exI [of _ mid], rule exI [of _ "alarm_events W s5"])
        (use c k mid(2,3) in simp)
    show ?thesis
      unfolding r(1)
      by (rule exI [of _ pre],
          rule exI [of _ "mid @ PageClose # WriteKeptAlive 0 # alarm_events W s5"])
        (use n link inner pre(2,3) in simp)
  qed
qed

lemma deliveries_numeral:
  "deliveries W (numeral k) s = deliveries W (pred_numeral k) (deliver_alarm W s)"
  by (simp add: numeral_eq_Suc)

lemmas interleaved_defs = Browser_fetch_interleaved_def launch_if_needed_interleaved_def
  render_interleaved_def page_work_interleaved_def awaiting_def deliveries_numeral
  deliver_alarm_def Browser_alarm_def connected_def KEEP_BROWSER_ALIVE_IN_SECONDS_def
  two_ticks_and_one_def idle_50_armed_def

lemma fetch_two_ticks_and_one:
  "Browser_fetch_interleaved recorded world_ok two_ticks_and_one request_render idle_50_armed =
     (Inr (Response_image (Some [0x89, 0x50, 0x4E, 0x47])),
      idle_50
       \<lparr>kv := [hashString payload_480 \<mapsto> ([0x89, 0x50, 0x4E, 0x47], 86400)],
        trace :=
          [KvGet (hashString payload_480), WriteKeptAlive 0, NewPage,
           SetViewport (Finite 480) (Finite 1600), Goto href_480,
           WriteKeptAlive 10, ConsoleLog (Kept_alive 10), SetAlarm 1700000010000,
           WriteKeptAlive 20, ConsoleLog (Kept_alive 20), SetAlarm 1700000010000,
           Screenshot,
           KvPut (hashString payload_480) [0x89, 0x50, 0x4E, 0x47] 86400,
           WriteKeptAlive 30, ConsoleLog (Kept_alive 30), SetAlarm 1700000010000,
           PageClose, WriteKeptAlive 0, GetAlarm],
        keptAliveInSeconds := 0,
        alarm := Some 1700000010000\<rparr>)"
  by (simp add: prelude_render interleaved_defs handler_defs state_defs fields_480_def
      parseInt_defs)

theorem render_resets_counter_before_and_after_witness:
  "keptAliveInSeconds idle_50_armed = 50 \<and>
   fst (Browser_fetch_interleaved recorded world_ok two_ticks_and_one request_render idle_50_armed)
     = Inr (Response_image (Some [0x89, 0x50, 0x4E, 0x47])) \<and>
   new_events idle_50_armed
     (snd (Browser_fetch_interleaved recorded world_ok two_ticks_and_one request_render
             idle_50_armed))
     = [KvGet (hashString payload_480), WriteKeptAlive 0, NewPage,
        SetViewport (Finite 480) (Finite 1600), Goto href_480,
        WriteKeptAlive 10, ConsoleLog (Kept_alive 10), SetAlarm 1700000010000,
        WriteKeptAlive 20, ConsoleLog (Kept_alive 20), SetAlarm 1700000010000,
        Screenshot,
        KvPut (hashString payload_480) [0x89, 0x50, 0x4E, 0x47] 86400,
        WriteKeptAlive 30, ConsoleLog (Kept_alive 30), SetAlarm 1700000010000,
        PageClose, WriteKeptAlive 0, GetAlarm] \<and>
   (\<exists>pre mid post.
      new_events idle_50_armed
        (snd (Browser_fetch_interleaved recorded world_ok two_ticks_and_one request_render
                idle_50_armed))
        = pre @ WriteKeptAlive 0 # NewPage # mid @ PageClose # WriteKeptAlive 0 # post \<and>
      NewPage \<notin> set pre \<and> climbs 0 (written mid) \<and> written post = []) \<and>
   keptAliveInSeconds
     (snd (Browser_fetch_interleaved recorded world_ok two_ticks_and_one request_render
             idle_50_armed)) = 0"
proof -
  obtain r s' where e:
    "Browser_fetch_interleaved recorded world_ok two_ticks_and_one request_render idle_50_armed
       = (r, s')"
    by (cases "Browser_fetch_interleaved recorded world_ok two_ticks_and_one request_render
          idle_50_armed")
  have r: "r = Inr (Response_image (Some [0x89, 0x50, 0x4E, 0x47]))"
    using e unfolding fetch_two_ticks_and_one by simp
  have n: "new_events idle_50_armed s'
     = [KvGet (hashString payload_480), WriteKeptAlive 0, NewPage,
        SetViewport (Finite 480) (Finite 1600), Goto href_480,
        WriteKeptAlive 10, ConsoleLog (Kept_alive 10), SetAlarm 1700000010000,
        WriteKeptAlive 20, ConsoleLog (Kept_alive 20), SetAlarm 1700000010000,
        Screenshot,
        KvPut (hashString payload_480) [0x89, 0x50, 0x4E, 0x47] 86400,
        WriteKeptAlive 30, ConsoleLog (Kept_alive 30), SetAlarm 1700000010000,
        PageClose, WriteKeptAlive 0, GetAlarm]"
    using e unfolding fetch_two_ticks_and_one
    by (auto simp: new_events_def state_defs idle_50_armed_def)
  have miss: "kv idle_50_armed (optionsHashed
      \<lparr>parsedObj = JObject fields_480, optionsStr = payload_480,
       optionsHashed = hashString payload_480, target = href_480\<rparr>) = None"
    by (simp add: state_defs idle_50_armed_def)
  have live: "browser idle_50_armed \<noteq> None \<or> \<not> isl (launch world_ok)"
    by (simp add: state_defs idle_50_armed_def)
  have k: "keptAliveInSeconds idle_50_armed = 50"
    by (simp add: state_defs idle_50_armed_def)
  have "\<exists>pre mid post.
      new_events idle_50_armed s'
        = pre @ WriteKeptAlive 0 # NewPage # mid @ PageClose # WriteKeptAlive 0 # post \<and>
      NewPage \<notin> set pre \<and> climbs 0 (written mid) \<and> written post = [] \<and>
      keptAliveInSeconds s' = 0"
    using render_resets_counter_before_and_after [OF prelude_render miss live e]
    unfolding r by auto
  then show ?thesis
    using e r n k by auto
qed

text \<open>
  C7 as stated fails on a render that throws. The object holds a connected browser and the
  cache has nothing under the key, so the render begins; the navigation is rejected and the
  request ends in that exception. The counter has been written once, before the page was
  opened, and never after; with two alarms delivered while the navigation was awaited, the
  request ends with the counter at 20.
\<close>

theorem failed_render_is_not_followed_by_a_reset:
  "kv idle_50 (hashString payload_480) = None \<and>
   browser idle_50 = Some \<lparr>session = 7, isConnected = True\<rparr> \<and>
   fst (Browser_fetch recorded world_goto_rejects request_render idle_50)
     = Inl (Exn NavigationError) \<and>
   new_events idle_50 (snd (Browser_fetch recorded world_goto_rejects request_render idle_50))
     = [KvGet (hashString payload_480), WriteKeptAlive 0, NewPage,
        SetViewport (Finite 480) (Finite 1600), Goto href_480] \<and>
   kv idle_50_armed (hashString payload_480) = None \<and>
   browser idle_50_armed = Some \<lparr>session = 7, isConnected = True\<rparr> \<and>
   fst (Browser_fetch_interleaved recorded world_goto_rejects two_ticks_and_one request_render
          idle_50_armed)
     = Inl (Exn NavigationError) \<and>
   new_events idle_50_armed
     (snd (Browser_fetch_interleaved recorded world_goto_rejects two_ticks_and_one request_render
             idle_50_armed))
     = [KvGet (hashString payload_480), WriteKeptAlive 0, NewPage,
        SetViewport (Finite 480) (Finite 1600), Goto href_480,
        WriteKeptAlive 10, ConsoleLog (Kept_alive 10), SetAlarm 1700000010000,
        WriteKeptAlive 20, ConsoleLog (Kept_alive 20), SetAlarm 1700000010000] \<and>
   keptAliveInSeconds
     (snd (Browser_fetch_interleaved recorded world_goto_rejects two_ticks_and_one request_render
             idle_50_armed)) = 20"
proof -
  have a: "Browser_fetch recorded world_goto_rejects request_render idle_50 =
     (Inl (Exn NavigationError),
      idle_50
       \<lparr>trace :=
          [KvGet (hashString payload_480), WriteKeptAlive 0, NewPage,
           SetViewport (Finite 480) (Finite 1600), Goto href_480],
        keptAliveInSeconds := 0\<rparr>)"
    by (simp add: prelude_render handler_defs state_defs world_goto_rejects_def fields_480_def
        parseInt_defs)
  have b: "Browser_fetch_interleaved recorded world_goto_rejects two_ticks_and_one request_render
       idle_50_armed =
     (Inl (Exn NavigationError),
      idle_50
       \<lparr>trace :=
          [KvGet (hashString payload_480), WriteKeptAlive 0, NewPage,
           SetViewport (Finite 480) (Finite 1600), Goto href_480,
           WriteKeptAlive 10, ConsoleLog (Kept_alive 10), SetAlarm 1700000010000,
           WriteKeptAlive 20, ConsoleLog (Kept_alive 20), SetAlarm 1700000010000],
        keptAliveInSeconds := 20,
        alarm := Some 1700000010000\<rparr>)"
    by (simp add: prelude_render interleaved_defs handler_defs state_defs world_goto_rejects_def
        fields_480_def parseInt_defs)
  show ?thesis
    unfolding a b by (simp add: new_events_def state_defs idle_50_armed_def)
qed

section \<open>Arming the alarm\<close>

lemma Browser_fetch_alarm:
  assumes "Browser_fetch P W request_url s = (r, s')"
  shows "alarm s' =
     (case (prelude P request_url, r) of
        (Continue job, Inr resp) \<Rightarrow>
          (case alarm s of None \<Rightarrow> Some (Date_now W + 10000) | Some t \<Rightarrow> Some t)
      | _ \<Rightarrow> alarm s)"
proof (cases "prelude P request_url")
  case (Done d)
  then show ?thesis
    using assms by (simp add: Browser_fetch_Done)
next
  case (Continue job)
  let ?k = "optionsHashed job"
  let ?s1 = "launch_if_needed W s"
  let ?s2 = "emit (KvGet ?k) ?s1"
  have a2: "alarm ?s2 = alarm s"
    by (simp add: emit_def launch_if_needed_fields)
  show ?thesis
  proof (cases "kv s ?k")
    case (Some entry)
    obtain v ttl where "entry = (v, ttl)"
      by (cases entry)
    then show ?thesis
      using assms Continue Some a2
      by (auto simp: Browser_fetch_hit arm_alarm_eq split: option.split)
  next
    case None
    show ?thesis
    proof (cases "browser ?s1")
      case no: None
      then show ?thesis
        using assms Continue None a2
        by (auto simp: Browser_fetch_no_browser arm_alarm_eq split: option.split)
    next
      case (Some b)
      obtain q s3 where rd: "render W b job ?s2 = (q, s3)"
        by (cases "render W b job ?s2")
      show ?thesis
      proof (cases q)
        case (Inl e)
        then have "s' = s3" and "r = Inl e"
          using assms Continue None Some rd by (simp_all add: Browser_fetch_render)
        moreover have "alarm s3 = alarm ?s2"
          using render_Inl rd Inl by fastforce
        ultimately show ?thesis
          using Continue a2 by simp
      next
        case (Inr img)
        then have "s' = arm_alarm W s3" and "r = Inr (Response_image img)"
          using assms Continue None Some rd by (simp_all add: Browser_fetch_render)
        moreover have "alarm s3 = alarm ?s2"
          using render_Inr rd Inr by fastforce
        ultimately show ?thesis
          using Continue a2 by (simp add: arm_alarm_eq split: option.split)
      qed
    qed
  qed
qed

text \<open>
  C8, as the code has it. When \<open>Browser.fetch\<close> answers a request that carries a \<open>url\<close> and
  a string \<open>options\<close> with the image response, the alarm is afterwards the one that was
  scheduled, or, if none was, one set for ten seconds after \<open>Date.now()\<close>. A request that
  is answered before that (the favicon, a missing \<open>url\<close>, missing \<open>options\<close>) or that ends
  in an exception leaves the alarm as it was.
\<close>

theorem alarm_armed_after_image_response:
  assumes "Browser_fetch P W request_url s = (r, s')"
  shows "(prelude P request_url = Continue job \<and> r = Inr resp \<longrightarrow>
            alarm s' = (case alarm s of None \<Rightarrow> Some (Date_now W + 10000) | Some t \<Rightarrow> Some t)) \<and>
         (prelude P request_url = Done d \<longrightarrow> alarm s' = alarm s) \<and>
         (r = Inl e \<longrightarrow> alarm s' = alarm s)"
  using Browser_fetch_alarm [OF assms] by (auto split: prelude_result.splits)

theorem alarm_armed_after_image_response_witness:
  "alarm idle_50 = None \<and>
   alarm (snd (Browser_fetch recorded world_ok request_render idle_50)) = Some 1700000010000 \<and>
   alarm (snd (Browser_fetch recorded world_ok request_render (idle_50\<lparr>alarm := Some 5\<rparr>)))
     = Some 5"
proof -
  obtain r s' where e: "Browser_fetch recorded world_ok request_render idle_50 = (r, s')"
    by (cases "Browser_fetch recorded world_ok request_render idle_50")
  have r: "r = Inr (Response_image (Some [0x89, 0x50, 0x4E, 0x47]))"
    using e unfolding fetch_render_idle_50 by simp
  obtain q t' where
    f: "Browser_fetch recorded world_ok request_render (idle_50\<lparr>alarm := Some 5\<rparr>) = (q, t')"
    by (cases "Browser_fetch recorded world_ok request_render (idle_50\<lparr>alarm := Some 5\<rparr>)")
  have q: "q = Inr (Response_image (Some [0x89, 0x50, 0x4E, 0x47]))"
    using f by (simp add: prelude_render handler_defs state_defs fields_480_def parseInt_defs)
  show ?thesis
    using alarm_armed_after_image_response [OF e] alarm_armed_after_image_response [OF f]
      prelude_render r q e f
    by (simp add: state_defs)
qed

text \<open>
  C8 as stated fails: a favicon request is handled, no alarm is scheduled before it, and
  none is armed after it.
\<close>

theorem favicon_request_arms_no_alarm:
  "fst (Browser_fetch recorded world_ok request_favicon fresh) = Inr Response_empty \<and>
   alarm fresh = None \<and>
   alarm (snd (Browser_fetch recorded world_ok request_favicon fresh)) = None"
  by (simp add: Browser_fetch_Done prelude_favicon state_defs)

section \<open>Requests without a url or without options\<close>









section \<open>A launch that fails\<close>

text \<open>
  When the object holds no handle at all, a launch that fails is logged, no page is opened,
  and a miss of the cache is answered with status 200 and an empty body.
\<close>

lemma failed_launch_without_handle:
  assumes "prelude P request_url = Continue job"
    and "browser s = None"
    and "launch W = Inl err"
    and "kv s (optionsHashed job) = None"
    and "Browser_fetch P W request_url s = (r, s')"
  shows "r = Inr (Response_image None) \<and> status (Response_image None) = 200 \<and>
         body (Response_image None) = Empty \<and>
         ConsoleLog (Could_not_start err) \<in> set (new_events s s') \<and>
         \<not> list_ex page_event (new_events s s') \<and> browser s' = None"
proof -
  let ?s2 = "emit (KvGet (optionsHashed job)) (launch_if_needed W s)"
  have b1: "browser (launch_if_needed W s) = None"
    using assms(2,3) by (simp add: launch_if_needed_def console_log_def emit_def Let_def)
  have le: "launch_events W s =
      [ConsoleLog Starting_new_instance, Launch, ConsoleLog (Could_not_start err)]"
    using assms(2,3) by (simp add: launch_events_def)
  have rs: "r = Inr (Response_image None)" "s' = arm_alarm W ?s2"
    using Browser_fetch_no_browser [OF assms(1) assms(4) b1] assms(5) by simp_all
  have ne: "new_events s s' = launch_events W s @ [KvGet (optionsHashed job)] @ alarm_events W ?s2"
    using rs(2) by (simp add: arm_alarm_eq launch_if_needed_trace new_events_def)
  have "browser s' = None"
    using rs(2) b1 by (simp add: arm_alarm_eq emit_def)
  then show ?thesis
    using rs(1) ne le alarm_events_quiet [of W ?s2] by (simp add: Response_image_def)
qed

text \<open>
  The state \<open>closed_60\<close> is the one the alarm leaves behind when it takes the counter of
  \<open>idle_50\<close> to the ceiling, the trace apart.
\<close>

lemma alarm_leaves_closed_60:
  "browser (Browser_alarm world_ok idle_50) = browser closed_60 \<and>
   keptAliveInSeconds (Browser_alarm world_ok idle_50) = keptAliveInSeconds closed_60 \<and>
   kv (Browser_alarm world_ok idle_50) = kv closed_60 \<and>
   alarm (Browser_alarm world_ok idle_50) = alarm closed_60"
  by (simp add: Browser_alarm_def KEEP_BROWSER_ALIVE_IN_SECONDS_def Let_def console_log_def
      emit_def state_defs)

text \<open>
  C3 at the input where the code departs from it. The object holds the handle that the
  alarm closed, the launch fails, and the cache misses: the failure is logged, but the
  render is not skipped. The counter is reset and \<open>newPage()\<close> is called on the closed
  handle, and the request ends in the exception of that call instead of the empty answer.
\<close>

theorem failed_launch_on_closed_handle_still_renders:
  "browser closed_60 = Some \<lparr>session = 7, isConnected = False\<rparr> \<and>
   launch world_no_launch = Inl (lit ''no browser available'') \<and>
   kv closed_60 (hashString payload_480) = None \<and>
   fst (Browser_fetch recorded world_no_launch request_render closed_60)
     = Inl (Exn ProtocolError) \<and>
   new_events closed_60 (snd (Browser_fetch recorded world_no_launch request_render closed_60))
     = [ConsoleLog Starting_new_instance, Launch,
        ConsoleLog (Could_not_start (lit ''no browser available'')),
        KvGet (hashString payload_480), WriteKeptAlive 0, NewPage]"
  unfolding fetch_closed_60_no_launch
  by (simp add: new_events_def state_defs)

section \<open>The two handlers\<close>


lemma kv_emit [simp]: "kv (emit e s) = kv s"
  by (simp add: emit_def)



lemma filter_launch_events [simp]: "filter render_event (launch_events W s) = []"
  by (simp add: launch_events_def split: option.split sum.split)

lemma filter_alarm_events [simp]: "filter render_event (alarm_events W s) = []"
  by (simp add: alarm_events_def)







section \<open>The canonical options and the cache key\<close>




lemma cache_keys_launch_events [simp]: "cache_keys (launch_events W s) = []"
  by (simp add: launch_events_def split: option.split sum.split)

lemma cache_keys_alarm_events [simp]: "cache_keys (alarm_events W s) = []"
  by (simp add: alarm_events_def)










end
